theory Spec2Isabelle
  imports Complex_Main "HOL-Library.Word"
begin

section \<open>Values exchanged with the Web Audio platform\<close>

text \<open>
  The services of \<^verbatim>\<open>src/services/audioEffectsService.ts\<close> work on three kinds of
  platform values: a \<^verbatim>\<open>Blob\<close> (bytes with a MIME type), an \<^verbatim>\<open>AudioBuffer\<close> (decoded
  audio) and a \<^verbatim>\<open>DataView\<close> over a fresh \<^verbatim>\<open>ArrayBuffer\<close>.

  An \<^verbatim>\<open>AudioBuffer\<close> carries its channel count, its length in sample frames and its sample
  rate; \<^verbatim>\<open>getChannelData(i)[k]\<close> is sample \<open>k\<close> of channel \<open>i\<close>. The samples are 32-bit
  floats; every finite float is a rational number and the products with 32767 and 32768 taken
  by the encoder are exact in double precision, so samples are modelled as \<^typ>\<open>rat\<close>.
\<close>

type_synonym byte = "8 word"

record Blob =
  blob_bytes :: "byte list"
  blob_type :: string

record AudioBuffer =
  numberOfChannels :: nat
  length_frames :: nat
  sampleRate :: nat
  getChannelData :: "nat \<Rightarrow> nat \<Rightarrow> rat"

text \<open>\<^verbatim>\<open>AudioBuffer.duration\<close>: the length in seconds.\<close>

definition duration :: "AudioBuffer \<Rightarrow> rat" where
  "duration b = of_nat (length_frames b) / of_nat (sampleRate b)"

text \<open>
  Everything the services can throw: a \<^verbatim>\<open>DataView\<close> write outside the buffer
  (\<^verbatim>\<open>RangeError\<close>), a rejected \<^verbatim>\<open>decodeAudioData\<close> (\<open>DecodeError\<close>), a refused
  \<^verbatim>\<open>new OfflineAudioContext\<close> (\<^verbatim>\<open>NotSupportedError\<close>), a rejected
  \<^verbatim>\<open>fetch\<close> (\<^verbatim>\<open>TypeError\<close>), and the \<^verbatim>\<open>new Error(message)\<close> of the preset services.
\<close>

datatype error = RangeError | DecodeError | NotSupportedError | TypeError | Error string

section \<open>The \<^verbatim>\<open>DataView\<close> writes of \<^verbatim>\<open>audioBufferToWavBlob\<close>\<close>

type_synonym DataView = "byte list"

text \<open>
  The \<open>n\<close> little-endian bytes of an integer. Taking the low bytes of a two's-complement
  integer is the wrap-around of \<^verbatim>\<open>setUint16\<close>, \<^verbatim>\<open>setUint32\<close> and \<^verbatim>\<open>setInt16\<close>.
\<close>

definition le_bytes :: "nat \<Rightarrow> int \<Rightarrow> byte list" where
  "le_bytes n d = map (\<lambda>k. word_of_int (d div 256 ^ k)) [0..<n]"

text \<open>A write of \<open>bs\<close> at byte offset \<open>pos\<close>; the platform throws when it does not fit.\<close>

definition setBytes :: "DataView \<Rightarrow> nat \<Rightarrow> byte list \<Rightarrow> error + DataView" where
  "setBytes view pos bs =
     (if pos + length bs \<le> length view
      then Inr (take pos view @ bs @ drop (pos + length bs) view)
      else Inl RangeError)"

text \<open>
  The two closures of the source, \<^verbatim>\<open>setUint16\<close> and \<^verbatim>\<open>setUint32\<close>, write at the shared
  cursor \<^verbatim>\<open>pos\<close> and advance it; the state is the pair of the view and the cursor.
\<close>

definition setUint16 :: "int \<Rightarrow> DataView \<times> nat \<Rightarrow> error + DataView \<times> nat" where
  "setUint16 data st =
     (case setBytes (fst st) (snd st) (le_bytes 2 data) of
        Inl e \<Rightarrow> Inl e
      | Inr view' \<Rightarrow> Inr (view', snd st + 2))"

definition setUint32 :: "int \<Rightarrow> DataView \<times> nat \<Rightarrow> error + DataView \<times> nat" where
  "setUint32 data st =
     (case setBytes (fst st) (snd st) (le_bytes 4 data) of
        Inl e \<Rightarrow> Inl e
      | Inr view' \<Rightarrow> Inr (view', snd st + 4))"

text \<open>
  \<^verbatim>\<open>view.setInt16(pos, sample, true)\<close> with a fractional \<^verbatim>\<open>sample\<close>: the platform converts
  the number with ToInt16, which drops the fraction (towards zero) and wraps modulo \<open>2^16\<close>.
\<close>

definition truncate_number :: "rat \<Rightarrow> int" where
  "truncate_number x = (if x < 0 then \<lceil>x\<rceil> else \<lfloor>x\<rfloor>)"

definition setInt16 :: "DataView \<Rightarrow> nat \<Rightarrow> rat \<Rightarrow> error + DataView" where
  "setInt16 view pos x = setBytes view pos (le_bytes 2 (truncate_number x))"

text \<open>Reading a signed 16-bit little-endian value back (\<^verbatim>\<open>getInt16(pos, true)\<close>).\<close>

definition getInt16 :: "byte list \<Rightarrow> nat \<Rightarrow> int" where
  "getInt16 bs pos =
     (let u = uint (bs ! pos) + 256 * uint (bs ! (pos + 1))
      in if u < 32768 then u else u - 65536)"

definition getUint16 :: "byte list \<Rightarrow> nat \<Rightarrow> int" where
  "getUint16 bs pos = uint (bs ! pos) + 256 * uint (bs ! (pos + 1))"

definition getUint32 :: "byte list \<Rightarrow> nat \<Rightarrow> int" where
  "getUint32 bs pos =
     uint (bs ! pos) + 256 * uint (bs ! (pos + 1)) + 65536 * uint (bs ! (pos + 2))
       + 16777216 * uint (bs ! (pos + 3))"

section \<open>\<^verbatim>\<open>audioBufferToWavBlob\<close>: the WAV encoder\<close>

text \<open>Sequencing of writes: the first throw ends the function.\<close>

fun writes :: "('s \<Rightarrow> error + 's) list \<Rightarrow> 's \<Rightarrow> error + 's" where
  "writes [] st = Inr st"
| "writes (w # ws) st = (case w st of Inl e \<Rightarrow> Inl e | Inr st' \<Rightarrow> writes ws st')"

text \<open>
  The RIFF header, the \<^verbatim>\<open>fmt\<close> sub-chunk and the head of the \<^verbatim>\<open>data\<close> sub-chunk, in the
  order of the source. \<open>len\<close> is the source's \<^verbatim>\<open>length\<close>, the size of the whole file; the
  last write reads the cursor (\<^verbatim>\<open>length - pos - 4\<close>).
\<close>

definition writeHeader :: "nat \<Rightarrow> nat \<Rightarrow> nat \<Rightarrow> DataView \<times> nat \<Rightarrow> error + DataView \<times> nat" where
  "writeHeader numOfChan rate len =
     writes
      [setUint32 0x46464952,
       setUint32 (int len - 8),
       setUint32 0x45564157,
       setUint32 0x20746d66,
       setUint32 16,
       setUint16 1,
       setUint16 (int numOfChan),
       setUint32 (int rate),
       setUint32 (int rate * 2 * int numOfChan),
       setUint16 (int numOfChan * 2),
       setUint16 16,
       setUint32 0x61746164,
       (\<lambda>st. setUint32 (int len - int (snd st) - 4) st)]"

text \<open>
  The body of the inner \<^verbatim>\<open>for\<close> loop: clamp, scale, write, advance. \<open>scale_sample\<close> is the
  number handed to \<^verbatim>\<open>setInt16\<close>.
\<close>

definition scale_sample :: "rat \<Rightarrow> rat" where
  "scale_sample x =
     (let sample = max (- 1) (min 1 x)
      in if sample < 0 then sample * 32768 else sample * 32767)"

text \<open>The inner loop over the channels \<open>i\<close> of one frame \<open>offset\<close>.\<close>

fun writeFrame ::
  "(nat \<Rightarrow> nat \<Rightarrow> rat) \<Rightarrow> nat \<Rightarrow> nat list \<Rightarrow> DataView \<times> nat \<Rightarrow> error + DataView \<times> nat" where
  "writeFrame channels offset [] st = Inr st"
| "writeFrame channels offset (i # is) st =
     (case setInt16 (fst st) (snd st) (scale_sample (channels i offset)) of
        Inl e \<Rightarrow> Inl e
      | Inr view' \<Rightarrow> writeFrame channels offset is (view', snd st + 2))"

text \<open>
  The outer \<^verbatim>\<open>while (pos < length)\<close> loop. Nothing in the loop itself bounds the number of
  rounds (with no channel the cursor would never move), so the loop is a partial function:
  \<open>None\<close> is a loop that never ends, \<open>Some (Inl e)\<close> a throw.
\<close>

partial_function (option) writeSamples ::
  "(nat \<Rightarrow> nat \<Rightarrow> rat) \<Rightarrow> nat \<Rightarrow> nat \<Rightarrow> nat \<Rightarrow> DataView \<times> nat \<Rightarrow> (error + DataView) option" where
  "writeSamples channels numOfChan len offset st =
     (if snd st < len
      then (case writeFrame channels offset [0..<numOfChan] st of
              Inl e \<Rightarrow> Some (Inl e)
            | Inr st' \<Rightarrow> writeSamples channels numOfChan len (offset + 1) st')
      else Some (Inr (fst st)))"

definition audioBufferToWavBlob :: "AudioBuffer \<Rightarrow> (error + Blob) option" where
  "audioBufferToWavBlob buffer =
     (let numOfChan = numberOfChannels buffer;
          len = length_frames buffer * numOfChan * 2 + 44;
          view = replicate len 0
      in case writeHeader numOfChan (sampleRate buffer) len (view, 0) of
           Inl e \<Rightarrow> Some (Inl e)
         | Inr st \<Rightarrow>
            (case writeSamples (getChannelData buffer) numOfChan len 0 st of
               None \<Rightarrow> None
             | Some (Inl e) \<Rightarrow> Some (Inl e)
             | Some (Inr view') \<Rightarrow> Some (Inr \<lparr>blob_bytes = view', blob_type = ''audio/wav''\<rparr>)))"

text \<open>
  The signed 16-bit value stored for a sample \<open>x\<close>, and the layout the loops produce: the
  bytes of one frame (every channel of the frame, in channel order) and of a run of \<open>k\<close>
  frames from \<open>offset\<close> on. These describe the result; the loops above compute it.
\<close>

definition pcm16 :: "rat \<Rightarrow> int" where
  "pcm16 x = truncate_number (scale_sample x)"

definition frameBytes :: "(nat \<Rightarrow> nat \<Rightarrow> rat) \<Rightarrow> nat list \<Rightarrow> nat \<Rightarrow> byte list" where
  "frameBytes channels cs offset = concat (map (\<lambda>i. le_bytes 2 (pcm16 (channels i offset))) cs)"

definition sampleBytes :: "(nat \<Rightarrow> nat \<Rightarrow> rat) \<Rightarrow> nat \<Rightarrow> nat \<Rightarrow> nat \<Rightarrow> byte list" where
  "sampleBytes channels numOfChan offset k =
     concat (map (frameBytes channels [0..<numOfChan]) [offset..<offset + k])"

definition wavHeader :: "nat \<Rightarrow> nat \<Rightarrow> nat \<Rightarrow> byte list" where
  "wavHeader numOfChan rate len =
     concat
      [le_bytes 4 0x46464952, le_bytes 4 (int len - 8), le_bytes 4 0x45564157,
       le_bytes 4 0x20746d66, le_bytes 4 16, le_bytes 2 1, le_bytes 2 (int numOfChan),
       le_bytes 4 (int rate), le_bytes 4 (int rate * 2 * int numOfChan),
       le_bytes 2 (int numOfChan * 2), le_bytes 2 16, le_bytes 4 0x61746164,
       le_bytes 4 (int len - 44)]"

definition wavBytes :: "AudioBuffer \<Rightarrow> byte list" where
  "wavBytes buffer =
     wavHeader (numberOfChannels buffer) (sampleRate buffer)
        (length_frames buffer * numberOfChannels buffer * 2 + 44)
     @ sampleBytes (getChannelData buffer) (numberOfChannels buffer) 0 (length_frames buffer)"

text \<open>A write of \<open>bs\<close> at the cursor, the common shape of \<open>setUint16\<close> and \<open>setUint32\<close>.\<close>

definition emit :: "byte list \<Rightarrow> DataView \<times> nat \<Rightarrow> error + DataView \<times> nat" where
  "emit bs st =
     (case setBytes (fst st) (snd st) bs of
        Inl e \<Rightarrow> Inl e
      | Inr view' \<Rightarrow> Inr (view', snd st + length bs))"

text \<open>
  The 16-bit value found in the encoded file for frame \<open>f\<close>, channel \<open>c\<close>, when the encoder
  returns one: the sample data start at byte 44, two bytes per sample.
\<close>

definition encoded_sample :: "AudioBuffer \<Rightarrow> nat \<Rightarrow> nat \<Rightarrow> int option" where
  "encoded_sample buffer f c =
     (case audioBufferToWavBlob buffer of
        Some (Inr wav) \<Rightarrow>
          Some (getInt16 (blob_bytes wav) (44 + 2 * (f * numberOfChannels buffer + c)))
      | _ \<Rightarrow> None)"

text \<open>
  The sample conversion in the words of the specification: clamp to \<open>[-1, 1]\<close>, scale
  negative values by 32768 and the others by 32767, round to the nearest integer.
\<close>

definition spec_pcm16 :: "rat \<Rightarrow> int" where
  "spec_pcm16 x =
     (let sample = max (- 1) (min 1 x)
      in round (if sample < 0 then sample * 32768 else sample * 32767))"

text \<open>A mono clip of one frame holding the sample \<open>1/4\<close>, at 24 kHz.\<close>

definition quarter_clip :: AudioBuffer where
  "quarter_clip =
     \<lparr>numberOfChannels = 1, length_frames = 1, sampleRate = 24000,
      getChannelData = (\<lambda>c k. 1 / 4)\<rparr>"

text \<open>A stereo clip of two frames: \<open>1/4\<close> on the left channel, \<open>-3/2\<close> on the right.\<close>

definition stereo_clip :: AudioBuffer where
  "stereo_clip =
     \<lparr>numberOfChannels = 2, length_frames = 2, sampleRate = 24000,
      getChannelData = (\<lambda>c k. if c = 0 then 1 / 4 else - 3 / 2)\<rparr>"

section \<open>\<^verbatim>\<open>applyEffect\<close>\<close>

datatype EffectPreset =
    None_effect | RadioBooth | ConcertHall | CosmicDelay | Telephone | RobotVoice
  | PitchShiftUp | PitchShiftDown

definition PITCH_UP_RATE :: rat where
  "PITCH_UP_RATE = 5 / 4"

definition PITCH_DOWN_RATE :: rat where
  "PITCH_DOWN_RATE = 4 / 5"

text \<open>
  The length of the offline context, \<^verbatim>\<open>renderLength\<close>. The divisions are taken in exact
  arithmetic: for the lengths of real clips the double-precision quotient lies on the same
  side of every integer, so \<^verbatim>\<open>Math.ceil\<close> gives the same result.
\<close>

definition renderLength :: "EffectPreset \<Rightarrow> nat \<Rightarrow> nat" where
  "renderLength preset len =
     (if preset = PitchShiftUp then nat \<lceil>of_nat len / PITCH_UP_RATE\<rceil>
      else if preset = PitchShiftDown then nat \<lceil>of_nat len / PITCH_DOWN_RATE\<rceil>
      else len)"

text \<open>
  The audio graph wired by the \<^verbatim>\<open>switch\<close>, between the buffer source and the destination:
  \<^item> a convolver whose two-channel impulse is decaying noise (duration in seconds, decay
    exponent);
  \<^item> a delay line with feedback (maximal delay, delay time, feedback gain), the dry and the
    delayed signal both connected to the destination;
  \<^item> a chain of biquad filters, in connection order;
  \<^item> a gain node whose gain is driven by a sine oscillator (frequency);
  \<^item> the source connected directly, played at a rate.
\<close>

datatype BiquadType = lowpass | highpass

datatype EffectGraph =
    Convolver rat rat
  | FeedbackDelay rat rat rat
  | Filters "(BiquadType \<times> rat) list"
  | RingModulator rat
  | Playback rat

fun effectGraph :: "EffectPreset \<Rightarrow> EffectGraph" where
  "effectGraph RadioBooth = Convolver (2 / 5) (3 / 2)"
| "effectGraph ConcertHall = Convolver 2 2"
| "effectGraph CosmicDelay = FeedbackDelay 1 (1 / 2) (2 / 5)"
| "effectGraph Telephone = Filters [(highpass, 300), (lowpass, 3500)]"
| "effectGraph RobotVoice = RingModulator 50"
| "effectGraph PitchShiftUp = Playback PITCH_UP_RATE"
| "effectGraph PitchShiftDown = Playback PITCH_DOWN_RATE"
| "effectGraph None_effect = Playback 1"

text \<open>
  \<^verbatim>\<open>new OfflineAudioContext(numberOfChannels, length, sampleRate)\<close> fixes the shape of what
  \<^verbatim>\<open>startRendering()\<close> resolves to: a buffer of exactly that many channels and frames at
  that rate. The samples are computed by the platform from the graph; \<open>out\<close> stands for
  them.

  The constructor throws \<^verbatim>\<open>NotSupportedError\<close> for a context of no channel or of no
  frame. (It also refuses a sample rate the platform does not support; the services pass
  the rate of a decoded buffer, which is the rate of the context that decoded it, so that
  check is not modelled.)
\<close>

record OfflineAudioContext =
  ctx_numberOfChannels :: nat
  ctx_length :: nat
  ctx_sampleRate :: nat

definition newOfflineAudioContext :: "nat \<Rightarrow> nat \<Rightarrow> nat \<Rightarrow> error + OfflineAudioContext" where
  "newOfflineAudioContext channels len rate =
     (if channels = 0 \<or> len = 0 then Inl NotSupportedError
      else Inr \<lparr>ctx_numberOfChannels = channels, ctx_length = len, ctx_sampleRate = rate\<rparr>)"

definition startRendering :: "OfflineAudioContext \<Rightarrow> (nat \<Rightarrow> nat \<Rightarrow> rat) \<Rightarrow> AudioBuffer" where
  "startRendering ctx out =
     \<lparr>numberOfChannels = ctx_numberOfChannels ctx, length_frames = ctx_length ctx,
      sampleRate = ctx_sampleRate ctx, getChannelData = out\<rparr>"

text \<open>
  The platform is a parameter of the services: \<open>decodeAudioData\<close> decodes the bytes of a
  blob (\<open>None\<close> is a rejected promise), \<open>render\<close> computes the samples of an effect graph
  over its input buffer.

  \<open>renderEffect\<close> is the part of \<^verbatim>\<open>applyEffect\<close> from the decoding to \<^verbatim>\<open>renderedBuffer\<close>.
  Nothing in \<^verbatim>\<open>applyEffect\<close> is inside a \<^verbatim>\<open>try\<close> block: a rejected decoding and a refused
  context both reject the call.
\<close>

definition renderEffect ::
  "(Blob \<Rightarrow> AudioBuffer option) \<Rightarrow>
   (OfflineAudioContext \<Rightarrow> EffectGraph \<Rightarrow> AudioBuffer \<Rightarrow> nat \<Rightarrow> nat \<Rightarrow> rat) \<Rightarrow>
   Blob \<Rightarrow> EffectPreset \<Rightarrow> error + AudioBuffer" where
  "renderEffect decodeAudioData render audioBlob preset =
     (case decodeAudioData audioBlob of
        None \<Rightarrow> Inl DecodeError
      | Some decodedBuffer \<Rightarrow>
          (case newOfflineAudioContext (numberOfChannels decodedBuffer)
                  (renderLength preset (length_frames decodedBuffer))
                  (sampleRate decodedBuffer) of
             Inl e \<Rightarrow> Inl e
           | Inr offlineContext \<Rightarrow>
               Inr (startRendering offlineContext
                      (render offlineContext (effectGraph preset) decodedBuffer))))"

definition applyEffect ::
  "(Blob \<Rightarrow> AudioBuffer option) \<Rightarrow>
   (OfflineAudioContext \<Rightarrow> EffectGraph \<Rightarrow> AudioBuffer \<Rightarrow> nat \<Rightarrow> nat \<Rightarrow> rat) \<Rightarrow>
   Blob \<Rightarrow> EffectPreset \<Rightarrow> (error + Blob) option" where
  "applyEffect decodeAudioData render audioBlob preset =
     (if preset = None_effect then Some (Inr audioBlob)
      else (case renderEffect decodeAudioData render audioBlob preset of
              Inl e \<Rightarrow> Some (Inl e)
            | Inr renderedBuffer \<Rightarrow> audioBufferToWavBlob renderedBuffer))"

section \<open>\<^verbatim>\<open>mixAudio\<close>\<close>

datatype Timing = Start | Middle | End

record Track =
  blob :: Blob
  volume :: rat

record Layer = Track +
  timing :: Timing

text \<open>
  A buffer source connected to the destination of the offline context: its buffer, its
  \<^verbatim>\<open>loop\<close> flag, the gain on its way to the destination (1 for a direct connection) and
  the time in seconds given to \<^verbatim>\<open>start\<close>. No source is started with an offset or a
  duration, so a source plays its whole buffer from its first frame.
\<close>

record SourceNode =
  src_buffer :: AudioBuffer
  src_loop :: bool
  src_gain :: rat
  src_start :: rat

text \<open>The \<^verbatim>\<open>switch\<close> on the placement, for a layer buffer against the voice buffer.\<close>

definition startTime :: "Timing \<Rightarrow> AudioBuffer \<Rightarrow> AudioBuffer \<Rightarrow> rat" where
  "startTime t voiceBuffer sfxBuffer =
     (case t of
        Start \<Rightarrow> 0
      | Middle \<Rightarrow> duration voiceBuffer / 2 - duration sfxBuffer / 2
      | End \<Rightarrow> duration voiceBuffer - duration sfxBuffer)"

text \<open>
  The body of the \<^verbatim>\<open>try\<close> block of one layer, after a successful decoding: the source
  that is connected and started.
\<close>

definition layerSource :: "AudioBuffer \<Rightarrow> Layer \<Rightarrow> AudioBuffer \<Rightarrow> SourceNode" where
  "layerSource voiceBuffer sfx sfxBuffer =
     \<lparr>src_buffer = sfxBuffer, src_loop = False, src_gain = volume sfx,
      src_start = max 0 (startTime (timing sfx) voiceBuffer sfxBuffer)\<rparr>"

text \<open>
  The \<^verbatim>\<open>for\<close> loop over the layers. The source has this loop twice, word for word, once
  for \<^verbatim>\<open>sfxToApply\<close> and once for \<^verbatim>\<open>vocalDropsToApply\<close>. A layer whose decoding is
  rejected lands in \<^verbatim>\<open>catch\<close> and adds nothing.
\<close>

fun addLayers ::
  "(Blob \<Rightarrow> AudioBuffer option) \<Rightarrow> AudioBuffer \<Rightarrow> Layer list \<Rightarrow> SourceNode list \<Rightarrow> SourceNode list" where
  "addLayers decodeAudioData voiceBuffer [] graph = graph"
| "addLayers decodeAudioData voiceBuffer (sfx # rest) graph =
     (case decodeAudioData (blob sfx) of
        None \<Rightarrow> addLayers decodeAudioData voiceBuffer rest graph
      | Some sfxBuffer \<Rightarrow>
          addLayers decodeAudioData voiceBuffer rest
            (graph @ [layerSource voiceBuffer sfx sfxBuffer]))"

text \<open>
  \<^verbatim>\<open>mixAudio\<close> up to the call of \<^verbatim>\<open>startRendering\<close>: the offline context and the sources
  connected to its destination, in the order of their creation. The decoding of the voice
  and the construction of the context are outside every \<^verbatim>\<open>try\<close> block, and come before
  any layer is touched.
\<close>

definition mixGraph ::
  "(Blob \<Rightarrow> AudioBuffer option) \<Rightarrow> Blob \<Rightarrow> Track option \<Rightarrow> Layer list option \<Rightarrow>
   Layer list option \<Rightarrow> error + OfflineAudioContext \<times> SourceNode list" where
  "mixGraph decodeAudioData voiceBlob backgroundTrack sfxToApply vocalDropsToApply =
     (case decodeAudioData voiceBlob of
        None \<Rightarrow> Inl DecodeError
      | Some voiceBuffer \<Rightarrow>
          (case newOfflineAudioContext (numberOfChannels voiceBuffer)
                  (length_frames voiceBuffer) (sampleRate voiceBuffer) of
             Inl e \<Rightarrow> Inl e
           | Inr offlineContext \<Rightarrow>
               (let voiceSource =
                      \<lparr>src_buffer = voiceBuffer, src_loop = False, src_gain = 1,
                       src_start = 0\<rparr>;
                    graph = [voiceSource];
                    graph =
                      (case backgroundTrack of
                         None \<Rightarrow> graph
                       | Some track \<Rightarrow>
                           (case decodeAudioData (blob track) of
                              None \<Rightarrow> graph
                            | Some backgroundBuffer \<Rightarrow>
                                graph @ [\<lparr>src_buffer = backgroundBuffer, src_loop = True,
                                          src_gain = volume track, src_start = 0\<rparr>]));
                    graph =
                      (case sfxToApply of
                         None \<Rightarrow> graph
                       | Some layers \<Rightarrow> addLayers decodeAudioData voiceBuffer layers graph);
                    graph =
                      (case vocalDropsToApply of
                         None \<Rightarrow> graph
                       | Some layers \<Rightarrow> addLayers decodeAudioData voiceBuffer layers graph)
                in Inr (offlineContext, graph))))"

text \<open>The buffer \<^verbatim>\<open>renderedBuffer\<close> of \<^verbatim>\<open>mixAudio\<close>, and \<^verbatim>\<open>mixAudio\<close> itself.\<close>

definition renderMix ::
  "(Blob \<Rightarrow> AudioBuffer option) \<Rightarrow>
   (OfflineAudioContext \<Rightarrow> SourceNode list \<Rightarrow> nat \<Rightarrow> nat \<Rightarrow> rat) \<Rightarrow>
   Blob \<Rightarrow> Track option \<Rightarrow> Layer list option \<Rightarrow> Layer list option \<Rightarrow> error + AudioBuffer" where
  "renderMix decodeAudioData render voiceBlob backgroundTrack sfxToApply vocalDropsToApply =
     (case mixGraph decodeAudioData voiceBlob backgroundTrack sfxToApply vocalDropsToApply of
        Inl e \<Rightarrow> Inl e
      | Inr (offlineContext, graph) \<Rightarrow>
          Inr (startRendering offlineContext (render offlineContext graph)))"

definition mixAudio ::
  "(Blob \<Rightarrow> AudioBuffer option) \<Rightarrow>
   (OfflineAudioContext \<Rightarrow> SourceNode list \<Rightarrow> nat \<Rightarrow> nat \<Rightarrow> rat) \<Rightarrow>
   Blob \<Rightarrow> Track option \<Rightarrow> Layer list option \<Rightarrow> Layer list option \<Rightarrow> (error + Blob) option" where
  "mixAudio decodeAudioData render voiceBlob backgroundTrack sfxToApply vocalDropsToApply =
     (case renderMix decodeAudioData render voiceBlob backgroundTrack sfxToApply
             vocalDropsToApply of
        Inl e \<Rightarrow> Some (Inl e)
      | Inr renderedBuffer \<Rightarrow> audioBufferToWavBlob renderedBuffer)"

section \<open>The preset stores\<close>

text \<open>
  \<^verbatim>\<open>fetch\<close> of a \<^verbatim>\<open>data:\<close> URL with a base64 payload: the response body is the decoded
  payload, and a payload that is not base64 rejects the promise. The decoder reads four
  characters at a time; \<open>=\<close> pads the last group.
\<close>

definition b64_value :: "char \<Rightarrow> nat option" where
  "b64_value c =
     (let n = (of_char c :: nat)
      in if 65 \<le> n \<and> n \<le> 90 then Some (n - 65)
         else if 97 \<le> n \<and> n \<le> 122 then Some (n - 71)
         else if 48 \<le> n \<and> n \<le> 57 then Some (n + 4)
         else if n = 43 then Some 62
         else if n = 47 then Some 63
         else None)"

fun base64_decode :: "string \<Rightarrow> byte list option" where
  "base64_decode (a # b # c # d # rest) =
     (case (b64_value a, b64_value b) of
        (Some x, Some y) \<Rightarrow>
          (if c = CHR ''='' \<and> d = CHR ''='' \<and> rest = []
           then Some [of_nat (x * 4 + y div 16)]
           else (case b64_value c of
                   None \<Rightarrow> None
                 | Some z \<Rightarrow>
                     (if d = CHR ''='' \<and> rest = []
                      then Some [of_nat (x * 4 + y div 16), of_nat (y * 16 + z div 4)]
                      else (case b64_value d of
                              None \<Rightarrow> None
                            | Some w \<Rightarrow>
                                map_option
                                  (\<lambda>bs. of_nat (x * 4 + y div 16) # of_nat (y * 16 + z div 4)
                                          # of_nat (z * 64 + w) # bs)
                                  (base64_decode rest)))))
      | _ \<Rightarrow> None)"
| "base64_decode [] = Some []"
| "base64_decode _ = None"

definition fetch_data :: "string \<Rightarrow> string \<Rightarrow> error + Blob" where
  "fetch_data type base64 =
     (case base64_decode base64 of
        None \<Rightarrow> Inl TypeError
      | Some bs \<Rightarrow> Inr \<lparr>blob_bytes = bs, blob_type = type\<rparr>)"

subsection \<open>\<^verbatim>\<open>src/services/sfxService.ts\<close>\<close>

text \<open>
  Preset ids are the string values of the enumerations, as they are at run time. The
  tables are finite maps on their own keys, in the order of the source.
\<close>

definition None_sfx :: string where "None_sfx = ''None''"
definition LaserZap :: string where "LaserZap = ''Laser Zap''"
definition AirHorn :: string where "AirHorn = ''Air Horn''"
definition RecordScratch :: string where "RecordScratch = ''Record Scratch''"
definition Explosion :: string where "Explosion = ''Explosion''"

definition PRESET_SFX :: "(string \<times> string) list" where
  "PRESET_SFX =
     [(None_sfx, []),
      (LaserZap, ''UklGRiYAAABXQVZFZm10IBAAAAABAAEARKwAAIhYAQACABgAZGF0YQIAAAB/fw==''),
      (AirHorn, ''UklGRiYAAABXQVZFZm10IBAAAAABAAEARKwAAIhYAQACABgAZGF0YQIAAAB/fw==''),
      (RecordScratch, ''UklGRiYAAABXQVZFZm10IBAAAAABAAEARKwAAIhYAQACABgAZGF0YQIAAAB/fw==''),
      (Explosion, ''UklGRiYAAABXQVZFZm10IBAAAAABAAEARKwAAIhYAQACABgAZGF0YQIAAAB/fw=='')]"

text \<open>
  Both tables and both caches are plain objects, read with \<^verbatim>\<open>object[preset]\<close>. Such a read
  yields the object's own property of that name when it has one; otherwise, for the names
  that every plain object inherits from \<^verbatim>\<open>Object.prototype\<close>, the inherited member (a
  function, or the prototype itself for \<^verbatim>\<open>__proto__\<close>: a truthy value that is not a blob
  and not a string); otherwise \<^verbatim>\<open>undefined\<close>. An object is modelled by the finite map of
  its own properties.
\<close>

definition Object_prototype :: "string list" where
  "Object_prototype =
     [''constructor'', ''__defineGetter__'', ''__defineSetter__'', ''hasOwnProperty'',
      ''__lookupGetter__'', ''__lookupSetter__'', ''isPrototypeOf'', ''propertyIsEnumerable'',
      ''toString'', ''valueOf'', ''__proto__'', ''toLocaleString'']"

datatype 'a property = Own 'a | Inherited string | Undefined

definition readProperty :: "(string \<rightharpoonup> 'a) \<Rightarrow> string \<Rightarrow> 'a property" where
  "readProperty object key =
     (case object key of
        Some v \<Rightarrow> Own v
      | None \<Rightarrow> if key \<in> set Object_prototype then Inherited key else Undefined)"

text \<open>
  What a store hands back when it does not throw: a blob, or the inherited member that
  the read of the cache found (the declared type says \<^verbatim>\<open>Blob\<close> either way).
\<close>

datatype Resolved = BlobValue Blob | InheritedMember string

text \<open>The helper of the SFX service returns an empty blob for an empty string.\<close>

definition sfx_base64ToBlob :: "string \<Rightarrow> string \<Rightarrow> error + Blob" where
  "sfx_base64ToBlob base64 type =
     (if base64 = [] then Inr \<lparr>blob_bytes = [], blob_type = type\<rparr>
      else fetch_data type base64)"

text \<open>
  \<^verbatim>\<open>getSfxBlob\<close>, with the module variable \<^verbatim>\<open>blobCache\<close> passed in and returned. Whatever
  the read of the cache finds is truthy and is returned. The read of the table is
  \<^verbatim>\<open>undefined\<close> exactly for an id that is neither a key nor an inherited name; an
  inherited member there (which the read of the cache has already returned, so this
  branch is never taken) would be interpolated into the \<^verbatim>\<open>data:\<close> URL and fail to fetch.
\<close>

definition getSfxBlob ::
  "(string \<rightharpoonup> Blob) \<Rightarrow> string \<Rightarrow> (error + Resolved) \<times> (string \<rightharpoonup> Blob)" where
  "getSfxBlob blobCache preset =
     (case readProperty blobCache preset of
        Own cached \<Rightarrow> (Inr (BlobValue cached), blobCache)
      | Inherited member \<Rightarrow> (Inr (InheritedMember member), blobCache)
      | Undefined \<Rightarrow>
          (case readProperty (map_of PRESET_SFX) preset of
             Undefined \<Rightarrow> (Inl (Error (''Preset SFX not found: '' @ preset)), blobCache)
           | Inherited member \<Rightarrow> (Inl TypeError, blobCache)
           | Own base64String \<Rightarrow>
               (case sfx_base64ToBlob base64String ''audio/wav'' of
                  Inl e \<Rightarrow> (Inl e, blobCache)
                | Inr b \<Rightarrow> (Inr (BlobValue b), blobCache(preset \<mapsto> b)))))"

subsection \<open>The background-track service (\<^verbatim>\<open>src/unnamed/part_001\<close>)\<close>

definition None_track :: string where "None_track = ''None''"
definition SynthWhoosh :: string where "SynthWhoosh = ''Synth Whoosh''"
definition NewsJingle :: string where "NewsJingle = ''News Jingle''"
definition RockRiff :: string where "RockRiff = ''Rock Riff''"

definition PRESET_TRACKS :: "(string \<times> string) list" where
  "PRESET_TRACKS =
     [(None_track, []),
      (SynthWhoosh, ''UklGRiQAAABXQVZFZm10IBAAAAABAAEAVFYAAFRWAAABAAgAZGF0YQAAAAA=''),
      (NewsJingle, ''UklGRiQAAABXQVZFZm10IBAAAAABAAEAVFYAAFRWAAABAAgAZGF0YQAAAAA=''),
      (RockRiff, ''UklGRiQAAABXQVZFZm10IBAAAAABAAEAVFYAAFRWAAABAAgAZGF0YQAAAAA='')]"

text \<open>The helper of the track service has no case for the empty string.\<close>

definition track_base64ToBlob :: "string \<Rightarrow> string \<Rightarrow> error + Blob" where
  "track_base64ToBlob base64 type = fetch_data type base64"

text \<open>
  \<^verbatim>\<open>getTrackBlob\<close>. The guard is \<^verbatim>\<open>!base64String\<close>: it holds for \<^verbatim>\<open>undefined\<close> and for the
  empty string. The reads of the cache and of the table are as in the SFX service.
\<close>

definition getTrackBlob ::
  "(string \<rightharpoonup> Blob) \<Rightarrow> string \<Rightarrow> (error + Resolved) \<times> (string \<rightharpoonup> Blob)" where
  "getTrackBlob blobCache preset =
     (case readProperty blobCache preset of
        Own cached \<Rightarrow> (Inr (BlobValue cached), blobCache)
      | Inherited member \<Rightarrow> (Inr (InheritedMember member), blobCache)
      | Undefined \<Rightarrow>
          (case readProperty (map_of PRESET_TRACKS) preset of
             Undefined \<Rightarrow> (Inl (Error (''Preset track not found: '' @ preset)), blobCache)
           | Inherited member \<Rightarrow> (Inl TypeError, blobCache)
           | Own base64String \<Rightarrow>
               (if base64String = []
                then (Inl (Error (''Preset track not found: '' @ preset)), blobCache)
                else (case track_base64ToBlob base64String ''audio/wav'' of
                        Inl e \<Rightarrow> (Inl e, blobCache)
                      | Inr b \<Rightarrow> (Inr (BlobValue b), blobCache(preset \<mapsto> b))))))"

text \<open>
  The cache after a history of calls: every state of \<^verbatim>\<open>blobCache\<close> the module can be in is
  the empty cache after some list of resolved ids (the latest first).
\<close>

fun sfxCacheAfter :: "string list \<Rightarrow> (string \<rightharpoonup> Blob)" where
  "sfxCacheAfter [] = Map.empty"
| "sfxCacheAfter (preset # earlier) = snd (getSfxBlob (sfxCacheAfter earlier) preset)"

fun trackCacheAfter :: "string list \<Rightarrow> (string \<rightharpoonup> Blob)" where
  "trackCacheAfter [] = Map.empty"
| "trackCacheAfter (preset # earlier) = snd (getTrackBlob (trackCacheAfter earlier) preset)"

text \<open>The bytes both tables embed, as the \<^verbatim>\<open>data:\<close> URL decodes them.\<close>

definition sfx_placeholder :: "byte list" where
  "sfx_placeholder =
     [82, 73, 70, 70, 38, 0, 0, 0, 87, 65, 86, 69, 102, 109, 116, 32, 16, 0, 0, 0, 1, 0, 1, 0,
      68, 172, 0, 0, 136, 88, 1, 0, 2, 0, 24, 0, 100, 97, 116, 97, 2, 0, 0, 0, 127, 127]"

definition track_placeholder :: "byte list" where
  "track_placeholder =
     [82, 73, 70, 70, 36, 0, 0, 0, 87, 65, 86, 69, 102, 109, 116, 32, 16, 0, 0, 0, 1, 0, 1, 0,
      84, 86, 0, 0, 84, 86, 0, 0, 1, 0, 8, 0, 100, 97, 116, 97, 0, 0, 0, 0]"

section \<open>The pipeline of a take (\<^verbatim>\<open>src/unnamed/part_000\<close>)\<close>

record AppliedSfx =
  sfx_id :: string
  sfx_preset :: string
  sfx_volume :: rat
  sfx_timing :: Timing

record VocalDrop =
  drop_id :: string
  drop_blob :: "Blob option"

record AppliedVocalDrop =
  applied_dropId :: string
  applied_volume :: rat
  applied_timing :: Timing

text \<open>
  \<^verbatim>\<open>TakeResult\<close> without its object URLs, which follow the blobs and play no part in what
  is rendered. \<^verbatim>\<open>selectedTrack\<close> is a track preset id or \<^verbatim>\<open>'custom'\<close>.
\<close>

record TakeResult =
  originalBlob :: Blob
  processedBlob :: Blob
  finalBlob :: Blob
  isProcessing :: bool
  selectedEffect :: EffectPreset
  selectedTrack :: string
  customTrackFile :: "Blob option"
  mixVolume :: rat
  appliedSfx :: "AppliedSfx list"
  appliedVocalDrops :: "AppliedVocalDrop list"

text \<open>
  \<^verbatim>\<open>newTakeSettings\<close>, the partial object of a reconfiguration: \<open>None\<close> is an absent
  property. The handlers of the page set one of these fields at a time (and clear
  \<^verbatim>\<open>customTrackFile\<close> together with \<^verbatim>\<open>selectedTrack\<close>).
\<close>

record TakeSettings =
  set_selectedEffect :: "EffectPreset option"
  set_selectedTrack :: "string option"
  set_customTrackFile :: "Blob option option"
  set_mixVolume :: "rat option"
  set_appliedSfx :: "AppliedSfx list option"
  set_appliedVocalDrops :: "AppliedVocalDrop list option"

text \<open>\<^verbatim>\<open>Object.assign(take, { ...newTakeSettings, isProcessing: true })\<close>, on the take \<open>tk\<close>.\<close>

definition assignSettings :: "TakeResult \<Rightarrow> TakeSettings \<Rightarrow> TakeResult" where
  "assignSettings tk newTakeSettings =
     tk
      \<lparr>selectedEffect := case_option (selectedEffect tk) id (set_selectedEffect newTakeSettings),
       selectedTrack := case_option (selectedTrack tk) id (set_selectedTrack newTakeSettings),
       customTrackFile :=
         case_option (customTrackFile tk) id (set_customTrackFile newTakeSettings),
       mixVolume := case_option (mixVolume tk) id (set_mixVolume newTakeSettings),
       appliedSfx := case_option (appliedSfx tk) id (set_appliedSfx newTakeSettings),
       appliedVocalDrops :=
         case_option (appliedVocalDrops tk) id (set_appliedVocalDrops newTakeSettings),
       isProcessing := True\<rparr>"

text \<open>
  What \<^verbatim>\<open>processAudioForTake\<close> resolves to: both blobs, or the empty object after any
  exception (\<^verbatim>\<open>catch\<close> returns \<^verbatim>\<open>{}\<close>).
\<close>

record ProcessedResult =
  res_processedBlob :: "Blob option"
  res_finalBlob :: "Blob option"

text \<open>
  Step 3 of \<^verbatim>\<open>processAudioForTake\<close>: the presets other than \<^verbatim>\<open>None\<close> are resolved through
  the SFX store. \<^verbatim>\<open>Promise.all\<close> rejects when one resolution rejects; the others still
  run and fill the cache. A resolution that is not a blob has no \<^verbatim>\<open>arrayBuffer\<close> method:
  \<^verbatim>\<open>mixAudio\<close> would throw on it inside the \<^verbatim>\<open>try\<close> block of that layer and go on, so it
  makes no layer.
\<close>

fun resolveSfx ::
  "(string \<rightharpoonup> Blob) \<Rightarrow> AppliedSfx list \<Rightarrow> (error + Layer list) \<times> (string \<rightharpoonup> Blob)" where
  "resolveSfx cache [] = (Inr [], cache)"
| "resolveSfx cache (sfx # rest) =
     (case getSfxBlob cache (sfx_preset sfx) of
        (Inl e, cache') \<Rightarrow> (Inl e, snd (resolveSfx cache' rest))
      | (Inr resolved, cache') \<Rightarrow>
          (case resolveSfx cache' rest of
             (Inl e, cache'') \<Rightarrow> (Inl e, cache'')
           | (Inr layers, cache'') \<Rightarrow>
               (case resolved of
                  BlobValue b \<Rightarrow>
                    (Inr (\<lparr>blob = b, volume = sfx_volume sfx, timing = sfx_timing sfx\<rparr>
                          # layers),
                     cache'')
                | InheritedMember member \<Rightarrow> (Inr layers, cache''))))"

text \<open>
  Step 4: an applied drop becomes a layer when the library has a drop of that id with a
  blob; the others are filtered out.
\<close>

definition resolveDrops :: "VocalDrop list \<Rightarrow> AppliedVocalDrop list \<Rightarrow> Layer list" where
  "resolveDrops vocalDrops applied =
     List.map_filter
       (\<lambda>appliedDrop.
          case find (\<lambda>d. drop_id d = applied_dropId appliedDrop) vocalDrops of
            None \<Rightarrow> None
          | Some d \<Rightarrow>
              (case drop_blob d of
                 None \<Rightarrow> None
               | Some b \<Rightarrow>
                   Some \<lparr>blob = b, volume = applied_volume appliedDrop,
                         timing = applied_timing appliedDrop\<rparr>))
       applied"

text \<open>
  The state of the page that the pipeline touches: the take, the two preset caches, the
  library of vocal drops, the error banner, and the calls of \<^verbatim>\<open>updateTakeState\<close> that have
  not finished. A call is suspended either in \<^verbatim>\<open>applyEffect\<close>, whose arguments were read
  from the take when the call started, or in the rest of \<^verbatim>\<open>processAudioForTake\<close>
  (\<^verbatim>\<open>mixAudio\<close>, or the return from \<^verbatim>\<open>catch\<close>), with its result fixed and the commit still
  to come; the library of drops is the one the callback closed over.
\<close>

datatype Run =
    InApplyEffect Blob EffectPreset "VocalDrop list"
  | Pending ProcessedResult
  | Finished

record Page =
  currentTake :: TakeResult
  trackCache :: "string \<rightharpoonup> Blob"
  sfxCache :: "string \<rightharpoonup> Blob"
  vocalDrops :: "VocalDrop list"
  errorBanner :: "string option"
  runs :: "Run list"

text \<open>The platform under the page: the decoder and the two renderers.\<close>

record Platform =
  pf_decodeAudioData :: "Blob \<Rightarrow> AudioBuffer option"
  pf_renderEffect :: "OfflineAudioContext \<Rightarrow> EffectGraph \<Rightarrow> AudioBuffer \<Rightarrow> nat \<Rightarrow> nat \<Rightarrow> rat"
  pf_renderMix :: "OfflineAudioContext \<Rightarrow> SourceNode list \<Rightarrow> nat \<Rightarrow> nat \<Rightarrow> rat"

text \<open>
  Steps 2 to 5 of \<^verbatim>\<open>processAudioForTake\<close>, run when \<^verbatim>\<open>applyEffect\<close> has resolved to
  \<open>processed\<close>: the settings are read from the take as it is then. The result is \<open>None\<close>
  when \<^verbatim>\<open>mixAudio\<close> never returns. (A background track that resolves to something that
  is not a blob is skipped by \<^verbatim>\<open>mixAudio\<close> as an SFX is, so it is no track.)
\<close>

definition prepareAndMix ::
  "Platform \<Rightarrow> Page \<Rightarrow> VocalDrop list \<Rightarrow> Blob \<Rightarrow> (ProcessedResult \<times> Page) option" where
  "prepareAndMix pf page drops processed =
     (let t = currentTake page;
          failed = \<lparr>res_processedBlob = None, res_finalBlob = None\<rparr>;
          banner = Some ''Failed to apply audio changes.'';
          (backgroundTrack, tracks) =
            (if selectedTrack t = ''custom'' \<and> customTrackFile t \<noteq> None
             then (Inr (Some \<lparr>blob = the (customTrackFile t), volume = mixVolume t\<rparr>),
                   trackCache page)
             else if selectedTrack t \<noteq> None_track \<and> selectedTrack t \<noteq> ''custom''
             then (case getTrackBlob (trackCache page) (selectedTrack t) of
                     (Inl e, c) \<Rightarrow> (Inl e, c)
                   | (Inr (BlobValue b), c) \<Rightarrow>
                       (Inr (Some \<lparr>blob = b, volume = mixVolume t\<rparr>), c)
                   | (Inr (InheritedMember member), c) \<Rightarrow> (Inr None, c))
             else (Inr None, trackCache page))
      in case backgroundTrack of
           Inl e \<Rightarrow> Some (failed, page\<lparr>trackCache := tracks, errorBanner := banner\<rparr>)
         | Inr bg \<Rightarrow>
             (case resolveSfx (sfxCache page)
                     (filter (\<lambda>sfx. sfx_preset sfx \<noteq> None_sfx) (appliedSfx t)) of
                (Inl e, sfxs) \<Rightarrow>
                  Some (failed,
                        page\<lparr>trackCache := tracks, sfxCache := sfxs, errorBanner := banner\<rparr>)
              | (Inr sfxToApply, sfxs) \<Rightarrow>
                  (case mixAudio (pf_decodeAudioData pf) (pf_renderMix pf) processed bg
                          (Some sfxToApply) (Some (resolveDrops drops (appliedVocalDrops t))) of
                     None \<Rightarrow> None
                   | Some (Inl e) \<Rightarrow>
                       Some (failed,
                             page\<lparr>trackCache := tracks, sfxCache := sfxs,
                                  errorBanner := banner\<rparr>)
                   | Some (Inr final) \<Rightarrow>
                       Some (\<lparr>res_processedBlob = Some processed, res_finalBlob = Some final\<rparr>,
                             page\<lparr>trackCache := tracks, sfxCache := sfxs\<rparr>))))"

text \<open>
  The state update at the end of \<^verbatim>\<open>updateTakeState\<close>: a blob of the result replaces the
  take's, and the take stops processing. Nothing else is consulted.
\<close>
definition commitResult :: "TakeResult \<Rightarrow> ProcessedResult \<Rightarrow> TakeResult" where
  "commitResult finalTake processedResult =
     finalTake
      \<lparr>processedBlob := case_option (processedBlob finalTake) id (res_processedBlob processedResult),
       finalBlob := case_option (finalBlob finalTake) id (res_finalBlob processedResult),
       isProcessing := False\<rparr>"

text \<open>
  What can happen on the page, one event at a time (the event loop runs one continuation
  to its next \<^verbatim>\<open>await\<close>):
  \<^item> \<open>UpdateTakeState\<close>: a handler calls \<^verbatim>\<open>updateTakeState\<close>, which assigns the settings and
    enters \<^verbatim>\<open>processAudioForTake\<close> up to its first \<^verbatim>\<open>await\<close>. Every call of
    \<^verbatim>\<open>updateTakeState\<close> on the page is the handler of a control of the take that is rendered
    with \<^verbatim>\<open>disabled={take.isProcessing}\<close> (alone or in a disjunction), and the function
    sets \<^verbatim>\<open>isProcessing\<close> before its first \<^verbatim>\<open>await\<close>: on a take that is processing the
    event is not delivered;
  \<^item> \<open>EffectResolved i\<close>: the \<^verbatim>\<open>applyEffect\<close> of call \<open>i\<close> resolves, and the call goes on to
    \<^verbatim>\<open>mixAudio\<close>;
  \<^item> \<open>ProcessResolved i\<close>: the \<^verbatim>\<open>processAudioForTake\<close> of call \<open>i\<close> resolves, and the call
    commits its result.
  An event for a call that is not at that point changes nothing. Calls are numbered in the
  order of their requests.
\<close>

datatype Event = UpdateTakeState TakeSettings | EffectResolved nat | ProcessResolved nat

definition step :: "Platform \<Rightarrow> Page \<Rightarrow> Event \<Rightarrow> Page" where
  "step pf page ev =
     (case ev of
        UpdateTakeState newTakeSettings \<Rightarrow>
          (if isProcessing (currentTake page) then page
           else (let t = assignSettings (currentTake page) newTakeSettings
                 in page\<lparr>currentTake := t,
                         runs := runs page @ [InApplyEffect (originalBlob t) (selectedEffect t)
                                                (vocalDrops page)]\<rparr>))
      | EffectResolved i \<Rightarrow>
          (if i < length (runs page)
           then (case runs page ! i of
                   InApplyEffect audioBlob preset drops \<Rightarrow>
                     (case applyEffect (pf_decodeAudioData pf) (pf_renderEffect pf) audioBlob
                             preset of
                        None \<Rightarrow> page
                      | Some (Inl e) \<Rightarrow>
                          page\<lparr>errorBanner := Some ''Failed to apply audio changes.'',
                               runs := (runs page)
                                 [i := Pending \<lparr>res_processedBlob = None,
                                                   res_finalBlob = None\<rparr>]\<rparr>
                      | Some (Inr processed) \<Rightarrow>
                          (case prepareAndMix pf page drops processed of
                             None \<Rightarrow> page
                           | Some (result, page') \<Rightarrow>
                               page'\<lparr>runs := (runs page) [i := Pending result]\<rparr>))
                 | _ \<Rightarrow> page)
           else page)
      | ProcessResolved i \<Rightarrow>
          (if i < length (runs page)
           then (case runs page ! i of
                   Pending processedResult \<Rightarrow>
                     page\<lparr>currentTake := commitResult (currentTake page) processedResult,
                          runs := (runs page) [i := Finished]\<rparr>
                 | _ \<Rightarrow> page)
           else page))"


section \<open>A small platform for concrete runs\<close>

text \<open>
  A decoder and renderers to run the services on: a blob whose first byte is \<open>n\<close> decodes
  to a silent mono clip of \<open>n\<close> frames at 24 kHz, an empty blob is rejected, and every
  rendered sample is 0.
\<close>

definition toy_decode :: "Blob \<Rightarrow> AudioBuffer option" where
  "toy_decode b =
     (case blob_bytes b of
        [] \<Rightarrow> None
      | n # _ \<Rightarrow>
          Some \<lparr>numberOfChannels = 1, length_frames = unat n, sampleRate = 24000,
                getChannelData = (\<lambda>c k. 0)\<rparr>)"

definition silent_effect ::
  "OfflineAudioContext \<Rightarrow> EffectGraph \<Rightarrow> AudioBuffer \<Rightarrow> nat \<Rightarrow> nat \<Rightarrow> rat" where
  "silent_effect ctx graph buffer c k = 0"

definition silent_mix :: "OfflineAudioContext \<Rightarrow> SourceNode list \<Rightarrow> nat \<Rightarrow> nat \<Rightarrow> rat" where
  "silent_mix ctx graph c k = 0"

definition toy_blob :: "nat \<Rightarrow> Blob" where
  "toy_blob n = \<lparr>blob_bytes = [of_nat n], blob_type = ''audio/wav''\<rparr>"

definition broken_blob :: Blob where
  "broken_blob = \<lparr>blob_bytes = [], blob_type = ''audio/wav''\<rparr>"

definition toy_clip :: "nat \<Rightarrow> AudioBuffer" where
  "toy_clip n =
     \<lparr>numberOfChannels = 1, length_frames = n, sampleRate = 24000,
      getChannelData = (\<lambda>c k. 0)\<rparr>"

text \<open>
  The layers of a mix, in the words of the result: the source of the voice, the looping
  source of a background track, and the sources of the layers that decode, in their order.
\<close>

definition voiceSource :: "AudioBuffer \<Rightarrow> SourceNode" where
  "voiceSource voiceBuffer =
     \<lparr>src_buffer = voiceBuffer, src_loop = False, src_gain = 1, src_start = 0\<rparr>"

definition backgroundSource :: "Track \<Rightarrow> AudioBuffer \<Rightarrow> SourceNode" where
  "backgroundSource track backgroundBuffer =
     \<lparr>src_buffer = backgroundBuffer, src_loop = True, src_gain = volume track, src_start = 0\<rparr>"

definition decodedLayers ::
  "(Blob \<Rightarrow> AudioBuffer option) \<Rightarrow> AudioBuffer \<Rightarrow> Layer list \<Rightarrow> SourceNode list" where
  "decodedLayers decodeAudioData voiceBuffer layers =
     List.map_filter
       (\<lambda>layer. map_option (layerSource voiceBuffer layer) (decodeAudioData (blob layer)))
       layers"

definition decodedBackground ::
  "(Blob \<Rightarrow> AudioBuffer option) \<Rightarrow> Track option \<Rightarrow> SourceNode list" where
  "decodedBackground decodeAudioData backgroundTrack =
     (case backgroundTrack of
        None \<Rightarrow> []
      | Some track \<Rightarrow>
          (case decodeAudioData (blob track) of
             None \<Rightarrow> []
           | Some backgroundBuffer \<Rightarrow> [backgroundSource track backgroundBuffer]))"

definition layers_of :: "Layer list option \<Rightarrow> Layer list" where
  "layers_of layers = (case layers of None \<Rightarrow> [] | Some ls \<Rightarrow> ls)"

definition contextOf :: "AudioBuffer \<Rightarrow> OfflineAudioContext" where
  "contextOf voiceBuffer =
     \<lparr>ctx_numberOfChannels = numberOfChannels voiceBuffer,
      ctx_length = length_frames voiceBuffer,
      ctx_sampleRate = sampleRate voiceBuffer\<rparr>"

text \<open>
  What each store resolves an id to, read off the tables: the blob of a preset (\<open>None\<close>
  when the table gives none), and the full outcome for any id, inherited names included.
\<close>

definition sfx_blob_of :: "string \<Rightarrow> Blob option" where
  "sfx_blob_of preset =
     (if preset = None_sfx then Some \<lparr>blob_bytes = [], blob_type = ''audio/wav''\<rparr>
      else if preset \<in> {LaserZap, AirHorn, RecordScratch, Explosion}
      then Some \<lparr>blob_bytes = sfx_placeholder, blob_type = ''audio/wav''\<rparr>
      else None)"

definition track_blob_of :: "string \<Rightarrow> Blob option" where
  "track_blob_of preset =
     (if preset \<in> {SynthWhoosh, NewsJingle, RockRiff} \<and> preset \<noteq> None_track
      then Some \<lparr>blob_bytes = track_placeholder, blob_type = ''audio/wav''\<rparr>
      else None)"

definition sfx_resolution :: "string \<Rightarrow> error + Resolved" where
  "sfx_resolution preset =
     (if preset \<in> set Object_prototype then Inr (InheritedMember preset)
      else (case sfx_blob_of preset of
              None \<Rightarrow> Inl (Error (''Preset SFX not found: '' @ preset))
            | Some b \<Rightarrow> Inr (BlobValue b)))"

definition track_resolution :: "string \<Rightarrow> error + Resolved" where
  "track_resolution preset =
     (if preset \<in> set Object_prototype then Inr (InheritedMember preset)
      else (case track_blob_of preset of
              None \<Rightarrow> Inl (Error (''Preset track not found: '' @ preset))
            | Some b \<Rightarrow> Inr (BlobValue b)))"









section \<open>The encoder: what the loops write\<close>

lemma length_le_bytes [simp]: "length (le_bytes n d) = n"
  by (simp add: le_bytes_def)

lemma setUint32_emit: "setUint32 d = emit (le_bytes 4 d)"
  by (rule ext) (simp add: setUint32_def emit_def split: sum.splits)

lemma setUint16_emit: "setUint16 d = emit (le_bytes 2 d)"
  by (rule ext) (simp add: setUint16_def emit_def split: sum.splits)

lemma emit_append:
  "length bs \<le> length rest \<Longrightarrow>
   emit bs (pre @ rest, length pre) = Inr ((pre @ bs) @ drop (length bs) rest, length (pre @ bs))"
  by (simp add: emit_def setBytes_def)

lemma writes_emit:
  "length (concat bss) \<le> length rest \<Longrightarrow>
   writes (map emit bss) (pre @ rest, length pre)
     = Inr ((pre @ concat bss) @ drop (length (concat bss)) rest, length (pre @ concat bss))"
proof (induction bss arbitrary: pre rest)
  case Nil
  then show ?case by simp
next
  case (Cons bs bss)
  have 1: "length bs \<le> length rest" using Cons.prems by simp
  have 2: "length (concat bss) \<le> length (drop (length bs) rest)" using Cons.prems by simp
  show ?case
    using Cons.IH [OF 2, of "pre @ bs"]
    by (simp add: emit_append [OF 1] add.commute)
qed

lemma writes_append:
  "writes (ws @ vs) st = (case writes ws st of Inl e \<Rightarrow> Inl e | Inr st' \<Rightarrow> writes vs st')"
  by (induction ws arbitrary: st) (auto split: sum.splits)

lemma length_wavHeader [simp]: "length (wavHeader n r l) = 44"
  by (simp add: wavHeader_def)

lemma writeHeader_ok:
  assumes "44 \<le> length view"
  shows "writeHeader n r l (view, 0) = Inr (wavHeader n r l @ drop 44 view, 44)"
proof -
  let ?bss = "[le_bytes 4 0x46464952, le_bytes 4 (int l - 8), le_bytes 4 0x45564157,
       le_bytes 4 0x20746d66, le_bytes 4 16, le_bytes 2 1, le_bytes 2 (int n),
       le_bytes 4 (int r), le_bytes 4 (int r * 2 * int n),
       le_bytes 2 (int n * 2), le_bytes 2 16, le_bytes 4 0x61746164]"
  have len: "length (concat ?bss) = 40" by simp
  have first: "writes (map emit ?bss) ([] @ view, length ([]::byte list))
     = Inr (([] @ concat ?bss) @ drop (length (concat ?bss)) view, length ([] @ concat ?bss))"
    by (rule writes_emit) (use assms len in linarith)
  have last: "emit (le_bytes 4 (int l - 44)) (concat ?bss @ drop 40 view, length (concat ?bss))
     = Inr ((concat ?bss @ le_bytes 4 (int l - 44)) @ drop 4 (drop 40 view),
            length (concat ?bss @ le_bytes 4 (int l - 44)))"
    using emit_append [of "le_bytes 4 (int l - 44)" "drop 40 view" "concat ?bss"] assms
    by simp
  have split: "writeHeader n r l =
     writes (map emit ?bss @ [\<lambda>st. setUint32 (int l - int (snd st) - 4) st])"
    by (simp add: writeHeader_def setUint32_emit setUint16_emit)
  show ?thesis
    unfolding split writes_append
    using first last
    by (simp add: setUint32_emit wavHeader_def)
qed

lemma length_frameBytes [simp]: "length (frameBytes channels cs offset) = 2 * length cs"
  by (induction cs) (simp_all add: frameBytes_def)

lemma writeFrame_ok:
  "2 * length cs \<le> length rest \<Longrightarrow>
   writeFrame channels offset cs (pre @ rest, length pre)
     = Inr ((pre @ frameBytes channels cs offset) @ drop (2 * length cs) rest,
            length (pre @ frameBytes channels cs offset))"
proof (induction cs arbitrary: pre rest)
  case Nil
  then show ?case by (simp add: frameBytes_def)
next
  case (Cons c cs)
  let ?bs = "le_bytes 2 (pcm16 (channels c offset))"
  have 1: "setInt16 (pre @ rest) (length pre) (scale_sample (channels c offset))
             = Inr ((pre @ ?bs) @ drop 2 rest)"
    using Cons.prems by (simp add: setInt16_def setBytes_def pcm16_def)
  have 2: "2 * length cs \<le> length (drop 2 rest)" using Cons.prems by simp
  have 3: "frameBytes channels (c # cs) offset = ?bs @ frameBytes channels cs offset"
    by (simp add: frameBytes_def)
  show ?case
    using Cons.IH [OF 2, of "pre @ ?bs"]
    by (simp add: 1 3 add.commute)
qed

lemma length_sampleBytes [simp]:
  "length (sampleBytes channels numOfChan offset k) = 2 * numOfChan * k"
  by (induction k) (simp_all add: sampleBytes_def algebra_simps)

lemma sampleBytes_Suc:
  "sampleBytes channels n offset (Suc k)
     = frameBytes channels [0..<n] offset @ sampleBytes channels n (Suc offset) k"
  by (simp add: sampleBytes_def upt_conv_Cons del: upt_Suc)

lemma writeSamples_ok:
  "0 < numOfChan \<Longrightarrow> length rest = 2 * numOfChan * k \<Longrightarrow> len = length pre + length rest \<Longrightarrow>
   writeSamples channels numOfChan len offset (pre @ rest, length pre)
     = Some (Inr (pre @ sampleBytes channels numOfChan offset k))"
proof (induction k arbitrary: pre rest offset)
  case 0
  then show ?case by (subst writeSamples.simps) (simp add: sampleBytes_def)
next
  case (Suc k)
  let ?fb = "frameBytes channels [0..<numOfChan] offset"
  have fr: "2 * length [0..<numOfChan] \<le> length rest" using Suc.prems by simp
  have lt: "length pre < len" using Suc.prems by simp
  have r: "length (drop (2 * numOfChan) rest) = 2 * numOfChan * k"
    using Suc.prems by (simp add: algebra_simps)
  have l: "len = length (pre @ ?fb) + length (drop (2 * numOfChan) rest)"
    using Suc.prems by (simp add: algebra_simps)
  have step: "writeFrame channels offset [0..<numOfChan] (pre @ rest, length pre)
     = Inr ((pre @ ?fb) @ drop (2 * numOfChan) rest, length (pre @ ?fb))"
    using writeFrame_ok [OF fr, of channels offset pre] by simp
  have rec: "writeSamples channels numOfChan len (offset + 1)
                ((pre @ ?fb) @ drop (2 * numOfChan) rest, length (pre @ ?fb))
     = Some (Inr ((pre @ ?fb) @ sampleBytes channels numOfChan (offset + 1) k))"
    by (rule Suc.IH [OF Suc.prems(1) r l])
  have "writeSamples channels numOfChan len offset (pre @ rest, length pre)
     = writeSamples channels numOfChan len (offset + 1)
                ((pre @ ?fb) @ drop (2 * numOfChan) rest, length (pre @ ?fb))"
    by (subst writeSamples.simps) (simp only: snd_conv lt if_True step sum.case)
  also note rec
  also have "(pre @ ?fb) @ sampleBytes channels numOfChan (offset + 1) k
               = pre @ sampleBytes channels numOfChan offset (Suc k)"
    by (simp add: sampleBytes_Suc)
  finally show ?case .
qed

lemma writeSamples_no_channel:
  "writeSamples channels 0 (length view) offset (view, length view) = Some (Inr view)"
  by (subst writeSamples.simps) simp

lemma audioBufferToWavBlob_eq:
  "audioBufferToWavBlob buffer = Some (Inr \<lparr>blob_bytes = wavBytes buffer, blob_type = ''audio/wav''\<rparr>)"
proof -
  let ?n = "numberOfChannels buffer"
  let ?len = "length_frames buffer * ?n * 2 + 44"
  let ?view = "replicate ?len (0::byte)"
  let ?hd = "wavHeader ?n (sampleRate buffer) ?len"
  have h: "writeHeader ?n (sampleRate buffer) ?len (?view, 0) = Inr (?hd @ drop 44 ?view, 44)"
    by (rule writeHeader_ok) simp
  have s: "writeSamples (getChannelData buffer) ?n ?len 0 (?hd @ drop 44 ?view, length ?hd)
      = Some (Inr (?hd @ sampleBytes (getChannelData buffer) ?n 0 (length_frames buffer)))"
  proof (cases "?n = 0")
    case True
    have "writeSamples (getChannelData buffer) 0 (length (?hd @ drop 44 ?view)) 0
             (?hd @ drop 44 ?view, length (?hd @ drop 44 ?view)) = Some (Inr (?hd @ drop 44 ?view))"
      by (rule writeSamples_no_channel)
    then show ?thesis using True by (simp add: sampleBytes_def frameBytes_def)
  next
    case False
    then have pos: "0 < ?n" by simp
    show ?thesis
      by (rule writeSamples_ok [OF pos]) (simp_all add: algebra_simps)
  qed
  show ?thesis
    unfolding audioBufferToWavBlob_def Let_def h
    using s by (simp add: wavBytes_def)
qed

lemma length_wavBytes:
  "length (wavBytes buffer) = numberOfChannels buffer * length_frames buffer * 2 + 44"
  by (simp add: wavBytes_def algebra_simps)

lemma concat_uniform_nth:
  "\<forall>xs\<in>set xss. length xs = m \<Longrightarrow> i < length xss \<Longrightarrow> j < m \<Longrightarrow>
   concat xss ! (i * m + j) = xss ! i ! j"
proof (induction xss arbitrary: i)
  case Nil
  then show ?case by simp
next
  case (Cons xs xss)
  show ?case
  proof (cases i)
    case 0
    then show ?thesis using Cons.prems by (simp add: nth_append)
  next
    case (Suc i')
    have "concat xss ! (i' * m + j) = xss ! i' ! j"
      using Cons.prems Suc by (intro Cons.IH) simp_all
    then show ?thesis using Cons.prems Suc by (simp add: nth_append add.assoc)
  qed
qed

lemma frameBytes_nth:
  assumes "c < n" "j < 2"
  shows "frameBytes channels [0..<n] f ! (2 * c + j) = le_bytes 2 (pcm16 (channels c f)) ! j"
proof -
  have "concat (map (\<lambda>i. le_bytes 2 (pcm16 (channels i f))) [0..<n]) ! (c * 2 + j)
          = map (\<lambda>i. le_bytes 2 (pcm16 (channels i f))) [0..<n] ! c ! j"
    by (rule concat_uniform_nth) (use assms in simp_all)
  then show ?thesis using assms by (simp add: frameBytes_def mult.commute)
qed

lemma sampleBytes_nth:
  assumes "f < k" "c < n" "j < 2"
  shows "sampleBytes channels n 0 k ! (2 * (f * n + c) + j)
           = le_bytes 2 (pcm16 (channels c f)) ! j"
proof -
  have in_frame: "2 * c + j < 2 * n" using assms by simp
  have "concat (map (frameBytes channels [0..<n]) [0..<k]) ! (f * (2 * n) + (2 * c + j))
          = map (frameBytes channels [0..<n]) [0..<k] ! f ! (2 * c + j)"
    by (rule concat_uniform_nth) (use assms in_frame in simp_all)
  then have "sampleBytes channels n 0 k ! (f * (2 * n) + (2 * c + j))
          = frameBytes channels [0..<n] f ! (2 * c + j)"
    using assms by (simp add: sampleBytes_def)
  moreover have "f * (2 * n) + (2 * c + j) = 2 * (f * n + c) + j"
    by (simp add: algebra_simps)
  ultimately show ?thesis using frameBytes_nth [OF assms(2,3)] by simp
qed

lemma wavBytes_sample_nth:
  assumes "f < length_frames buffer" "c < numberOfChannels buffer" "j < 2"
  shows "wavBytes buffer ! (44 + 2 * (f * numberOfChannels buffer + c) + j)
           = le_bytes 2 (pcm16 (getChannelData buffer c f)) ! j"
  using sampleBytes_nth [OF assms, of "getChannelData buffer"]
  by (simp add: wavBytes_def nth_append add.assoc)

lemma two_bytes_mod:
  "(v::int) mod 256 + 256 * ((v div 256) mod 256) = v mod 65536"
  using mod_mult2_eq' [of v 256 256] by simp

lemma signed16_mod:
  assumes "- 32768 \<le> (v::int)" "v < 32768"
  shows "(if v mod 65536 < 32768 then v mod 65536 else v mod 65536 - 65536) = v"
proof (cases "v < 0")
  case True
  have "v mod 65536 = (v + 65536) mod 65536" by simp
  also have "\<dots> = v + 65536" using assms True by (intro mod_pos_pos_trivial) simp_all
  finally show ?thesis using assms True by simp
next
  case False
  have "v mod 65536 = v" using assms False by (intro mod_pos_pos_trivial) simp_all
  then show ?thesis using assms by simp
qed

lemma getInt16_le_bytes:
  assumes "- 32768 \<le> v" "v < 32768"
    and "bs ! pos = le_bytes 2 v ! 0" "bs ! (pos + 1) = le_bytes 2 v ! 1"
  shows "getInt16 bs pos = v"
proof -
  have b0: "uint (bs ! pos) = v mod 256"
    using assms(3) by (simp add: le_bytes_def uint_word_of_int)
  have b1: "uint (bs ! (pos + 1)) = (v div 256) mod 256"
    using assms(4) by (simp add: le_bytes_def uint_word_of_int)
  show ?thesis
    unfolding getInt16_def Let_def b0 b1 two_bytes_mod
    by (rule signed16_mod [OF assms(1,2)])
qed

lemma scale_sample_range: "- 32768 \<le> scale_sample x \<and> scale_sample x \<le> 32767"
  by (simp add: scale_sample_def Let_def max_def min_def)

lemma truncate_number_range:
  assumes "- 32768 \<le> (y::rat)" "y \<le> 32767"
  shows "- 32768 \<le> truncate_number y \<and> truncate_number y < 32768"
proof (cases "y < 0")
  case True
  have "\<lceil>y\<rceil> \<le> 0" using True by (simp add: ceiling_le_iff)
  moreover have "- 32768 \<le> \<lceil>y\<rceil>" using assms(1) by (simp add: le_ceiling_iff)
  ultimately show ?thesis using True by (simp add: truncate_number_def)
next
  case False
  have "0 \<le> \<lfloor>y\<rfloor>" using False by simp
  moreover have "\<lfloor>y\<rfloor> < 32768" using assms(2) by (simp add: floor_less_iff)
  ultimately show ?thesis using False by (simp add: truncate_number_def)
qed

lemma pcm16_range: "- 32768 \<le> pcm16 x \<and> pcm16 x < 32768"
  unfolding pcm16_def using scale_sample_range [of x] by (intro truncate_number_range) simp_all

lemma wavBytes_getInt16:
  assumes "f < length_frames buffer" "c < numberOfChannels buffer"
  shows "getInt16 (wavBytes buffer) (44 + 2 * (f * numberOfChannels buffer + c))
           = pcm16 (getChannelData buffer c f)"
proof (rule getInt16_le_bytes)
  show "- 32768 \<le> pcm16 (getChannelData buffer c f)" using pcm16_range by simp
  show "pcm16 (getChannelData buffer c f) < 32768" using pcm16_range by simp
  show "wavBytes buffer ! (44 + 2 * (f * numberOfChannels buffer + c))
          = le_bytes 2 (pcm16 (getChannelData buffer c f)) ! 0"
    using wavBytes_sample_nth [OF assms, of 0] by simp
  show "wavBytes buffer ! (44 + 2 * (f * numberOfChannels buffer + c) + 1)
          = le_bytes 2 (pcm16 (getChannelData buffer c f)) ! 1"
    using wavBytes_sample_nth [OF assms, of 1] by simp
qed

lemma encoded_sample_eq:
  assumes "f < length_frames buffer" "c < numberOfChannels buffer"
  shows "encoded_sample buffer f c = Some (pcm16 (getChannelData buffer c f))"
  using wavBytes_getInt16 [OF assms]
  by (simp add: encoded_sample_def audioBufferToWavBlob_eq)

lemma pcm16_quarter: "pcm16 (1 / 4) = 8191"
  by (simp add: pcm16_def scale_sample_def truncate_number_def floor_eq_iff)

lemma spec_pcm16_quarter: "spec_pcm16 (1 / 4) = 8192"
  by (simp add: spec_pcm16_def round_def floor_eq_iff)

lemma pcm16_low: "pcm16 (- 3 / 2) = - 32768"
  by (simp add: pcm16_def scale_sample_def truncate_number_def)

lemma le_bytes_2: "le_bytes 2 d = [word_of_int d, word_of_int (d div 256)]"
proof -
  have "[0..<2] = [0, Suc 0]" by (simp add: upt_conv_Cons)
  then show ?thesis by (simp add: le_bytes_def)
qed

lemma le_bytes_4:
  "le_bytes 4 d = [word_of_int d, word_of_int (d div 256), word_of_int (d div 65536),
                   word_of_int (d div 16777216)]"
proof -
  have "[0..<4] = [0, 1, 2, 3]" by (simp add: upt_conv_Cons)
  then show ?thesis by (simp add: le_bytes_def)
qed

lemma getUint16_le_bytes:
  assumes "bs ! pos = word_of_int v" "bs ! (pos + 1) = word_of_int (v div 256)"
  shows "getUint16 bs pos = v mod 65536"
  unfolding getUint16_def assms by (simp add: uint_word_of_int two_bytes_mod)

lemma wavHeader_channels: "getUint16 (wavHeader n r l) 22 = int n mod 65536"
  by (rule getUint16_le_bytes) (simp_all add: wavHeader_def le_bytes_2 le_bytes_4)

lemma four_bytes_mod:
  "(v::int) mod 256 + 256 * ((v div 256) mod 256) + 65536 * ((v div 65536) mod 256)
     + 16777216 * ((v div 16777216) mod 256) = v mod 4294967296"
proof -
  have 1: "v mod 65536 = v mod 256 + 256 * ((v div 256) mod 256)"
    using two_bytes_mod [of v] by simp
  have 2: "(v div 65536) mod 65536 = (v div 65536) mod 256 + 256 * ((v div 65536 div 256) mod 256)"
    using two_bytes_mod [of "v div 65536"] by simp
  have 3: "v div 65536 div 256 = v div 16777216"
    by (simp add: zdiv_zmult2_eq [symmetric])
  have 4: "v mod 4294967296 = 65536 * ((v div 65536) mod 65536) + v mod 65536"
    using mod_mult2_eq' [of v 65536 65536] by simp
  show ?thesis unfolding 4 2 3 1 by simp
qed

lemma getUint32_le_bytes:
  assumes "bs ! pos = word_of_int v" "bs ! (pos + 1) = word_of_int (v div 256)"
    and "bs ! (pos + 2) = word_of_int (v div 65536)"
    and "bs ! (pos + 3) = word_of_int (v div 16777216)"
  shows "getUint32 bs pos = v mod 4294967296"
  unfolding getUint32_def assms by (simp add: uint_word_of_int four_bytes_mod)

lemma wavHeader_rate: "getUint32 (wavHeader n r l) 24 = int r mod 4294967296"
  by (rule getUint32_le_bytes) (simp_all add: wavHeader_def le_bytes_2 le_bytes_4)

lemma wavBytes_channels:
  "getUint16 (wavBytes buffer) 22 = int (numberOfChannels buffer) mod 65536"
  using wavHeader_channels [of "numberOfChannels buffer" "sampleRate buffer"
      "length_frames buffer * numberOfChannels buffer * 2 + 44"]
  by (simp add: getUint16_def wavBytes_def nth_append)

lemma wavBytes_rate:
  "getUint32 (wavBytes buffer) 24 = int (sampleRate buffer) mod 4294967296"
  using wavHeader_rate [of "numberOfChannels buffer" "sampleRate buffer"
      "length_frames buffer * numberOfChannels buffer * 2 + 44"]
  by (simp add: getUint32_def wavBytes_def nth_append)

section \<open>Claims about the encoder\<close>

text \<open>
  C3, as the code has it. For every buffer the encoder returns a blob of type
  \<^verbatim>\<open>audio/wav\<close> of exactly \<open>channelCount * sampleLength * 2 + 44\<close> bytes, and the
  16-bit value stored for frame \<open>f\<close> and channel \<open>c\<close>, found at byte
  \<open>44 + 2 * (f * channelCount + c)\<close> (frame-major interleaving), is the sample clamped to
  \<open>[-1, 1]\<close>, scaled by 32768 when negative and by 32767 otherwise, with its fraction
  dropped towards zero: \<^verbatim>\<open>setInt16\<close> truncates, it does not round to the nearest integer.
\<close>

theorem encode_layout_truncating:
  "(\<exists>wav. audioBufferToWavBlob buffer = Some (Inr wav) \<and> blob_type wav = ''audio/wav'' \<and>
          length (blob_bytes wav) = numberOfChannels buffer * length_frames buffer * 2 + 44) \<and>
   (\<forall>f c. f < length_frames buffer \<and> c < numberOfChannels buffer \<longrightarrow>
      encoded_sample buffer f c =
        Some (let sample = max (- 1) (min 1 (getChannelData buffer c f))
              in truncate_number (if sample < 0 then sample * 32768 else sample * 32767)))"
proof (intro conjI allI impI)
  show "\<exists>wav. audioBufferToWavBlob buffer = Some (Inr wav) \<and> blob_type wav = ''audio/wav'' \<and>
          length (blob_bytes wav) = numberOfChannels buffer * length_frames buffer * 2 + 44"
    by (simp add: audioBufferToWavBlob_eq length_wavBytes)
next
  fix f c
  assume "f < length_frames buffer \<and> c < numberOfChannels buffer"
  then have "encoded_sample buffer f c = Some (pcm16 (getChannelData buffer c f))"
    by (simp add: encoded_sample_eq)
  then show "encoded_sample buffer f c =
        Some (let sample = max (- 1) (min 1 (getChannelData buffer c f))
              in truncate_number (if sample < 0 then sample * 32768 else sample * 32767))"
    by (simp add: pcm16_def scale_sample_def Let_def)
qed

text \<open>
  The theorem at a stereo clip of two frames: 52 bytes; in frame 1 the left sample \<open>1/4\<close>
  is stored as 8191 (\<open>1/4 * 32767 = 8191.75\<close>) and the right sample \<open>-3/2\<close>, clamped to
  \<open>-1\<close>, as \<open>-32768\<close>.
\<close>

theorem encode_layout_truncating_witness:
  "(\<exists>wav. audioBufferToWavBlob stereo_clip = Some (Inr wav) \<and> length (blob_bytes wav) = 52) \<and>
   encoded_sample stereo_clip 1 0 = Some 8191 \<and> encoded_sample stereo_clip 1 1 = Some (- 32768)"
proof -
  have a: "(1::nat) < length_frames stereo_clip \<and> (0::nat) < numberOfChannels stereo_clip"
    by (simp add: stereo_clip_def)
  have b: "(1::nat) < length_frames stereo_clip \<and> (1::nat) < numberOfChannels stereo_clip"
    by (simp add: stereo_clip_def)
  note t = encode_layout_truncating [of stereo_clip]
  from t have "\<exists>wav. audioBufferToWavBlob stereo_clip = Some (Inr wav) \<and> length (blob_bytes wav) = 52"
    by (auto simp: stereo_clip_def)
  moreover from t a have "encoded_sample stereo_clip 1 0 = Some 8191"
    by (simp add: stereo_clip_def truncate_number_def floor_eq_iff)
  moreover from t b have "encoded_sample stereo_clip 1 1 = Some (- 32768)"
    by (simp add: stereo_clip_def truncate_number_def)
  ultimately show ?thesis by simp
qed

text \<open>
  C3 as stated fails on rounding: for the sample \<open>1/4\<close> the scaled value is \<open>8191.75\<close>,
  whose nearest integer is 8192, and the encoder stores 8191.
\<close>

theorem encode_truncates_counterexample:
  "encoded_sample quarter_clip 0 0 = Some 8191 \<and>
   spec_pcm16 (getChannelData quarter_clip 0 0) = 8192"
proof -
  have "encoded_sample quarter_clip 0 0 = Some (pcm16 (getChannelData quarter_clip 0 0))"
    by (rule encoded_sample_eq) (simp_all add: quarter_clip_def)
  then show ?thesis
    by (simp add: quarter_clip_def pcm16_quarter spec_pcm16_quarter)
qed

section \<open>Effects: the shape of the rendered buffer\<close>

lemma nat_ceiling_nonneg:
  assumes "0 \<le> (x::rat)"
  shows "int (nat \<lceil>x\<rceil>) = \<lceil>x\<rceil>"
proof -
  have "- 1 < x" using assms by linarith
  then have "0 \<le> \<lceil>x\<rceil>" by (simp only: zero_le_ceiling)
  then show ?thesis by simp
qed

lemma renderLength_up: "int (renderLength PitchShiftUp len) = \<lceil>(of_nat len :: rat) / (5 / 4)\<rceil>"
proof -
  have "renderLength PitchShiftUp len = nat \<lceil>(of_nat len :: rat) / (5 / 4)\<rceil>"
    by (simp add: renderLength_def PITCH_UP_RATE_def)
  moreover have "int (nat \<lceil>(of_nat len :: rat) / (5 / 4)\<rceil>) = \<lceil>(of_nat len :: rat) / (5 / 4)\<rceil>"
    by (rule nat_ceiling_nonneg) simp
  ultimately show ?thesis by simp
qed

lemma renderLength_down: "int (renderLength PitchShiftDown len) = \<lceil>(of_nat len :: rat) / (4 / 5)\<rceil>"
proof -
  have "renderLength PitchShiftDown len = nat \<lceil>(of_nat len :: rat) / (4 / 5)\<rceil>"
    by (simp add: renderLength_def PITCH_DOWN_RATE_def)
  moreover have "int (nat \<lceil>(of_nat len :: rat) / (4 / 5)\<rceil>) = \<lceil>(of_nat len :: rat) / (4 / 5)\<rceil>"
    by (rule nat_ceiling_nonneg) simp
  ultimately show ?thesis by simp
qed

lemma ceiling_up_div: "\<lceil>(of_nat len :: rat) / (5 / 4)\<rceil> = (4 * int len + 4) div 5"
proof -
  have "(of_nat len :: rat) / (5 / 4) = of_int (4 * int len) / of_int 5" by simp
  then have "\<lceil>(of_nat len :: rat) / (5 / 4)\<rceil> = - (- (4 * int len) div 5)"
    by (simp only: ceiling_divide_eq_div)
  also have "\<dots> = (4 * int len + 4) div 5" by presburger
  finally show ?thesis .
qed

lemma ceiling_down_div: "\<lceil>(of_nat len :: rat) / (4 / 5)\<rceil> = (5 * int len + 3) div 4"
proof -
  have "(of_nat len :: rat) / (4 / 5) = of_int (5 * int len) / of_int 4" by simp
  then have "\<lceil>(of_nat len :: rat) / (4 / 5)\<rceil> = - (- (5 * int len) div 4)"
    by (simp only: ceiling_divide_eq_div)
  also have "\<dots> = (5 * int len + 3) div 4" by presburger
  finally show ?thesis .
qed

lemma renderLength_other:
  "preset \<noteq> PitchShiftUp \<Longrightarrow> preset \<noteq> PitchShiftDown \<Longrightarrow> renderLength preset len = len"
  by (simp add: renderLength_def)

lemma renderLength_pos:
  assumes "0 < len"
  shows "0 < renderLength preset len"
proof -
  have up: "0 < renderLength PitchShiftUp len"
  proof -
    have "int (renderLength PitchShiftUp len) = (4 * int len + 4) div 5"
      by (simp only: renderLength_up ceiling_up_div)
    moreover have "0 < (4 * int len + 4) div 5" using assms by presburger
    ultimately show ?thesis by linarith
  qed
  have down: "0 < renderLength PitchShiftDown len"
  proof -
    have "int (renderLength PitchShiftDown len) = (5 * int len + 3) div 4"
      by (simp only: renderLength_down ceiling_down_div)
    moreover have "0 < (5 * int len + 3) div 4" using assms by presburger
    ultimately show ?thesis by linarith
  qed
  show ?thesis
  proof (cases "preset = PitchShiftUp \<or> preset = PitchShiftDown")
    case True
    then show ?thesis using up down by auto
  next
    case False
    then show ?thesis using assms by (simp add: renderLength_other)
  qed
qed

lemma renderLength_zero: "renderLength preset 0 = 0"
  by (simp add: renderLength_def)

lemma renderEffect_decoded:
  assumes "decodeAudioData audioBlob = Some decoded"
    and "0 < length_frames decoded" "0 < numberOfChannels decoded"
  shows "\<exists>rendered. renderEffect decodeAudioData render audioBlob preset = Inr rendered \<and>
           numberOfChannels rendered = numberOfChannels decoded \<and>
           sampleRate rendered = sampleRate decoded \<and>
           length_frames rendered = renderLength preset (length_frames decoded)"
  using assms renderLength_pos [of "length_frames decoded" preset]
  by (simp add: renderEffect_def newOfflineAudioContext_def startRendering_def)

lemma renderEffect_rejected:
  "decodeAudioData audioBlob = None \<Longrightarrow>
   renderEffect decodeAudioData render audioBlob preset = Inl DecodeError"
  by (simp add: renderEffect_def)

lemma renderEffect_no_frames:
  assumes "decodeAudioData audioBlob = Some decoded"
    and "length_frames decoded = 0 \<or> numberOfChannels decoded = 0"
  shows "renderEffect decodeAudioData render audioBlob preset = Inl NotSupportedError"
  using assms by (auto simp: renderEffect_def newOfflineAudioContext_def renderLength_zero)

lemma applyEffect_no_frames:
  assumes "preset \<noteq> None_effect" "decodeAudioData audioBlob = Some decoded"
    and "length_frames decoded = 0 \<or> numberOfChannels decoded = 0"
  shows "applyEffect decodeAudioData render audioBlob preset = Some (Inl NotSupportedError)"
  using assms renderEffect_no_frames [of decodeAudioData audioBlob decoded render preset]
  by (simp add: applyEffect_def)

lemma applyEffect_rendered:
  assumes "preset \<noteq> None_effect"
    and "renderEffect decodeAudioData render audioBlob preset = Inr rendered"
  shows "applyEffect decodeAudioData render audioBlob preset
           = Some (Inr \<lparr>blob_bytes = wavBytes rendered, blob_type = ''audio/wav''\<rparr>)"
  using assms by (simp add: applyEffect_def audioBufferToWavBlob_eq)

lemma toy_decode_blob [simp]: "n < 256 \<Longrightarrow> toy_decode (toy_blob n) = Some (toy_clip n)"
  by (simp add: toy_decode_def toy_blob_def toy_clip_def unat_of_nat)

lemma toy_decode_broken [simp]: "toy_decode broken_blob = None"
  by (simp add: toy_decode_def broken_blob_def)

lemma toy_clip_shape [simp]:
  "length_frames (toy_clip n) = n" "sampleRate (toy_clip n) = 24000"
  "numberOfChannels (toy_clip n) = 1"
  by (simp_all add: toy_clip_def)

section \<open>Claims about the effects\<close>

text \<open>
  C5. For a clip that decodes to \<open>L\<close> frames, \<open>L\<close> and the channel count positive,
  \<^verbatim>\<open>PitchShiftUp\<close> renders exactly \<open>ceil (L / 1.25)\<close> frames and \<^verbatim>\<open>PitchShiftDown\<close> exactly
  \<open>ceil (L / 0.8)\<close> frames, at the sample rate and with the channel count of the input;
  the blob returned is the encoding of that buffer, of \<open>channels * frames * 2 + 44\<close>
  bytes. (A clip of no frame is refused by the offline context: lemma
  \<open>applyEffect_no_frames\<close>.)
\<close>

theorem pitch_shift_length:
  assumes "decodeAudioData audioBlob = Some decoded"
    and "0 < length_frames decoded" "0 < numberOfChannels decoded"
  shows "(\<exists>up. renderEffect decodeAudioData render audioBlob PitchShiftUp = Inr up \<and>
            int (length_frames up) = \<lceil>(of_nat (length_frames decoded) :: rat) / (5 / 4)\<rceil> \<and>
            sampleRate up = sampleRate decoded \<and>
            numberOfChannels up = numberOfChannels decoded \<and>
            applyEffect decodeAudioData render audioBlob PitchShiftUp
              = Some (Inr \<lparr>blob_bytes = wavBytes up, blob_type = ''audio/wav''\<rparr>) \<and>
            length (wavBytes up) = numberOfChannels up * length_frames up * 2 + 44) \<and>
         (\<exists>down. renderEffect decodeAudioData render audioBlob PitchShiftDown = Inr down \<and>
            int (length_frames down) = \<lceil>(of_nat (length_frames decoded) :: rat) / (4 / 5)\<rceil> \<and>
            sampleRate down = sampleRate decoded \<and>
            numberOfChannels down = numberOfChannels decoded \<and>
            applyEffect decodeAudioData render audioBlob PitchShiftDown
              = Some (Inr \<lparr>blob_bytes = wavBytes down, blob_type = ''audio/wav''\<rparr>) \<and>
            length (wavBytes down) = numberOfChannels down * length_frames down * 2 + 44)"
proof (intro conjI)
  obtain up where up: "renderEffect decodeAudioData render audioBlob PitchShiftUp = Inr up"
      "numberOfChannels up = numberOfChannels decoded" "sampleRate up = sampleRate decoded"
      "length_frames up = renderLength PitchShiftUp (length_frames decoded)"
    using renderEffect_decoded [of decodeAudioData audioBlob decoded render] assms by blast
  have "applyEffect decodeAudioData render audioBlob PitchShiftUp
          = Some (Inr \<lparr>blob_bytes = wavBytes up, blob_type = ''audio/wav''\<rparr>)"
    using up(1) by (simp add: applyEffect_rendered)
  then show "\<exists>up. renderEffect decodeAudioData render audioBlob PitchShiftUp = Inr up \<and>
            int (length_frames up) = \<lceil>(of_nat (length_frames decoded) :: rat) / (5 / 4)\<rceil> \<and>
            sampleRate up = sampleRate decoded \<and>
            numberOfChannels up = numberOfChannels decoded \<and>
            applyEffect decodeAudioData render audioBlob PitchShiftUp
              = Some (Inr \<lparr>blob_bytes = wavBytes up, blob_type = ''audio/wav''\<rparr>) \<and>
            length (wavBytes up) = numberOfChannels up * length_frames up * 2 + 44"
    using up renderLength_up length_wavBytes by auto
next
  obtain down where down: "renderEffect decodeAudioData render audioBlob PitchShiftDown = Inr down"
      "numberOfChannels down = numberOfChannels decoded" "sampleRate down = sampleRate decoded"
      "length_frames down = renderLength PitchShiftDown (length_frames decoded)"
    using renderEffect_decoded [of decodeAudioData audioBlob decoded render] assms by blast
  have "applyEffect decodeAudioData render audioBlob PitchShiftDown
          = Some (Inr \<lparr>blob_bytes = wavBytes down, blob_type = ''audio/wav''\<rparr>)"
    using down(1) by (simp add: applyEffect_rendered)
  then show "\<exists>down. renderEffect decodeAudioData render audioBlob PitchShiftDown = Inr down \<and>
            int (length_frames down) = \<lceil>(of_nat (length_frames decoded) :: rat) / (4 / 5)\<rceil> \<and>
            sampleRate down = sampleRate decoded \<and>
            numberOfChannels down = numberOfChannels decoded \<and>
            applyEffect decodeAudioData render audioBlob PitchShiftDown
              = Some (Inr \<lparr>blob_bytes = wavBytes down, blob_type = ''audio/wav''\<rparr>) \<and>
            length (wavBytes down) = numberOfChannels down * length_frames down * 2 + 44"
    using down renderLength_down length_wavBytes by auto
qed

text \<open>The theorem at a clip of 7 frames: 6 frames up, 9 frames down.\<close>

theorem pitch_shift_length_witness:
  "toy_decode (toy_blob 7) = Some (toy_clip 7) \<and>
   0 < length_frames (toy_clip 7) \<and> 0 < numberOfChannels (toy_clip 7) \<and>
   (\<exists>up. renderEffect toy_decode silent_effect (toy_blob 7) PitchShiftUp = Inr up \<and>
          length_frames up = 6 \<and> sampleRate up = 24000 \<and> numberOfChannels up = 1) \<and>
   (\<exists>down. renderEffect toy_decode silent_effect (toy_blob 7) PitchShiftDown = Inr down \<and>
          length_frames down = 9 \<and> sampleRate down = 24000 \<and> numberOfChannels down = 1)"
proof -
  have d: "toy_decode (toy_blob 7) = Some (toy_clip 7)" by simp
  have p: "0 < length_frames (toy_clip 7)" "0 < numberOfChannels (toy_clip 7)" by simp_all
  have u: "\<lceil>(of_nat 7 :: rat) / (5 / 4)\<rceil> = 6" by (simp add: ceiling_eq_iff)
  have w: "\<lceil>(of_nat 7 :: rat) / (4 / 5)\<rceil> = 9" by (simp add: ceiling_eq_iff)
  have c: "length_frames (toy_clip 7) = 7" "sampleRate (toy_clip 7) = 24000"
      "numberOfChannels (toy_clip 7) = 1"
    by simp_all
  show ?thesis
    using pitch_shift_length [of toy_decode "toy_blob 7" "toy_clip 7" silent_effect] d p
    unfolding c u w by auto
qed

text \<open>
  C4, as the code has it. \<^verbatim>\<open>CosmicDelay\<close> wires a delay of 0.5 s with a feedback gain of
  0.4, and for a clip of at least one frame and one channel it renders into a context of
  exactly the length of the input, at its sample rate and channel count: no render tail is
  added, so repeats that fall after the end of the input are not in the output. The blob
  returned is the encoding of that buffer.
\<close>

theorem cosmic_delay_no_tail:
  assumes "decodeAudioData audioBlob = Some decoded"
    and "0 < length_frames decoded" "0 < numberOfChannels decoded"
  shows "effectGraph CosmicDelay = FeedbackDelay 1 (1 / 2) (2 / 5) \<and>
         (\<exists>rendered. renderEffect decodeAudioData render audioBlob CosmicDelay = Inr rendered \<and>
            length_frames rendered = length_frames decoded \<and>
            sampleRate rendered = sampleRate decoded \<and>
            numberOfChannels rendered = numberOfChannels decoded \<and>
            applyEffect decodeAudioData render audioBlob CosmicDelay
              = Some (Inr \<lparr>blob_bytes = wavBytes rendered, blob_type = ''audio/wav''\<rparr>) \<and>
            length (wavBytes rendered)
              = numberOfChannels decoded * length_frames decoded * 2 + 44)"
proof -
  obtain rendered where r: "renderEffect decodeAudioData render audioBlob CosmicDelay = Inr rendered"
      "numberOfChannels rendered = numberOfChannels decoded" "sampleRate rendered = sampleRate decoded"
      "length_frames rendered = renderLength CosmicDelay (length_frames decoded)"
    using renderEffect_decoded [of decodeAudioData audioBlob decoded render] assms by blast
  have "applyEffect decodeAudioData render audioBlob CosmicDelay
          = Some (Inr \<lparr>blob_bytes = wavBytes rendered, blob_type = ''audio/wav''\<rparr>)"
    using r(1) by (simp add: applyEffect_rendered)
  then show ?thesis using r by (auto simp: renderLength_other length_wavBytes)
qed

text \<open>The theorem at a clip of 3 frames: 3 frames are rendered.\<close>

theorem cosmic_delay_no_tail_witness:
  "toy_decode (toy_blob 3) = Some (toy_clip 3) \<and>
   0 < length_frames (toy_clip 3) \<and> 0 < numberOfChannels (toy_clip 3) \<and>
   (\<exists>rendered. renderEffect toy_decode silent_effect (toy_blob 3) CosmicDelay = Inr rendered \<and>
      length_frames rendered = 3)"
proof -
  have d: "toy_decode (toy_blob 3) = Some (toy_clip 3)" by simp
  have p: "0 < length_frames (toy_clip 3)" "0 < numberOfChannels (toy_clip 3)" by simp_all
  show ?thesis
    using cosmic_delay_no_tail [of toy_decode "toy_blob 3" "toy_clip 3" silent_effect] d p
    by auto
qed

text \<open>
  C4 as stated fails: a clip of 3 frames under \<^verbatim>\<open>CosmicDelay\<close> gives 3 frames, not more.
\<close>

theorem cosmic_delay_tail_counterexample:
  "map_option length_frames (toy_decode (toy_blob 3)) = Some 3 \<and>
   map_sum id length_frames (renderEffect toy_decode silent_effect (toy_blob 3) CosmicDelay) = Inr 3"
  by (simp add: renderEffect_def newOfflineAudioContext_def startRendering_def renderLength_def)

section \<open>The mix: the graph that is rendered\<close>

lemma addLayers_eq:
  "addLayers decodeAudioData voiceBuffer layers graph
     = graph @ decodedLayers decodeAudioData voiceBuffer layers"
proof (induction layers arbitrary: graph)
  case Nil
  then show ?case by (simp add: decodedLayers_def map_filter_simps)
next
  case (Cons layer layers)
  show ?case
  proof (cases "decodeAudioData (blob layer)")
    case None
    then show ?thesis
      using Cons.IH [of graph] by (simp add: decodedLayers_def map_filter_simps)
  next
    case (Some b)
    then show ?thesis
      using Cons.IH [of "graph @ [layerSource voiceBuffer layer b]"]
      by (simp add: decodedLayers_def map_filter_simps)
  qed
qed

lemma newOfflineAudioContext_ok:
  "0 < length_frames b \<Longrightarrow> 0 < numberOfChannels b \<Longrightarrow>
   newOfflineAudioContext (numberOfChannels b) (length_frames b) (sampleRate b)
     = Inr (contextOf b)"
  by (simp add: newOfflineAudioContext_def contextOf_def)

lemma mixGraph_decoded:
  assumes "decodeAudioData voiceBlob = Some voiceBuffer"
    and "0 < length_frames voiceBuffer" "0 < numberOfChannels voiceBuffer"
  shows "mixGraph decodeAudioData voiceBlob backgroundTrack sfxToApply vocalDropsToApply
     = Inr (contextOf voiceBuffer,
            [voiceSource voiceBuffer] @ decodedBackground decodeAudioData backgroundTrack
              @ decodedLayers decodeAudioData voiceBuffer (layers_of sfxToApply)
              @ decodedLayers decodeAudioData voiceBuffer (layers_of vocalDropsToApply))"
proof -
  have nil: "decodedLayers decodeAudioData voiceBuffer [] = []"
    by (simp add: decodedLayers_def map_filter_simps)
  show ?thesis
    using assms(1) newOfflineAudioContext_ok [OF assms(2,3)]
    by (simp add: mixGraph_def Let_def voiceSource_def decodedBackground_def
        backgroundSource_def layers_of_def addLayers_eq nil
        split: option.splits)
qed

lemma mixGraph_rejected:
  "decodeAudioData voiceBlob = None \<Longrightarrow>
   mixGraph decodeAudioData voiceBlob backgroundTrack sfxToApply vocalDropsToApply = Inl DecodeError"
  by (simp add: mixGraph_def)

lemma mixGraph_no_frames:
  assumes "decodeAudioData voiceBlob = Some voiceBuffer"
    and "length_frames voiceBuffer = 0 \<or> numberOfChannels voiceBuffer = 0"
  shows "mixGraph decodeAudioData voiceBlob backgroundTrack sfxToApply vocalDropsToApply
           = Inl NotSupportedError"
  using assms by (auto simp: mixGraph_def newOfflineAudioContext_def)

lemma mixAudio_of_graph:
  assumes "mixGraph decodeAudioData voiceBlob backgroundTrack sfxToApply vocalDropsToApply
             = Inr (ctx, graph)"
  shows "renderMix decodeAudioData render voiceBlob backgroundTrack sfxToApply vocalDropsToApply
           = Inr (startRendering ctx (render ctx graph))"
    and "mixAudio decodeAudioData render voiceBlob backgroundTrack sfxToApply vocalDropsToApply
           = Some (Inr \<lparr>blob_bytes = wavBytes (startRendering ctx (render ctx graph)),
                        blob_type = ''audio/wav''\<rparr>)"
  using assms by (simp_all add: renderMix_def mixAudio_def audioBufferToWavBlob_eq)

lemma mixAudio_rejected:
  "decodeAudioData voiceBlob = None \<Longrightarrow>
   mixAudio decodeAudioData render voiceBlob backgroundTrack sfxToApply vocalDropsToApply
     = Some (Inl DecodeError)"
  by (simp add: mixAudio_def renderMix_def mixGraph_rejected)

lemma mixAudio_no_frames:
  assumes "decodeAudioData voiceBlob = Some voiceBuffer"
    and "length_frames voiceBuffer = 0 \<or> numberOfChannels voiceBuffer = 0"
  shows "mixAudio decodeAudioData render voiceBlob backgroundTrack sfxToApply vocalDropsToApply
           = Some (Inl NotSupportedError)"
  using mixGraph_no_frames [of decodeAudioData voiceBlob voiceBuffer backgroundTrack sfxToApply
      vocalDropsToApply] assms
  by (simp add: mixAudio_def renderMix_def)

lemma startRendering_shape [simp]:
  "numberOfChannels (startRendering (contextOf b) out) = numberOfChannels b"
  "length_frames (startRendering (contextOf b) out) = length_frames b"
  "sampleRate (startRendering (contextOf b) out) = sampleRate b"
  by (simp_all add: startRendering_def contextOf_def)

lemma set_decodedLayers:
  "set (decodedLayers decodeAudioData voiceBuffer layers)
     = {layerSource voiceBuffer layer b | layer b.
          layer \<in> set layers \<and> decodeAudioData (blob layer) = Some b}"
proof (induction layers)
  case Nil
  then show ?case by (simp add: decodedLayers_def map_filter_simps)
next
  case (Cons l ls)
  have unfold: "decodedLayers decodeAudioData voiceBuffer (l # ls)
      = (case decodeAudioData (blob l) of
           None \<Rightarrow> decodedLayers decodeAudioData voiceBuffer ls
         | Some b \<Rightarrow> layerSource voiceBuffer l b # decodedLayers decodeAudioData voiceBuffer ls)"
    by (simp add: decodedLayers_def map_filter_simps split: option.splits)
  show ?case
    unfolding unfold using Cons.IH by (auto split: option.splits)
qed

lemma decodedLayers_member:
  assumes "layer \<in> set layers" "decodeAudioData (blob layer) = Some b"
  shows "layerSource voiceBuffer layer b \<in> set (decodedLayers decodeAudioData voiceBuffer layers)"
  using assms unfolding set_decodedLayers by blast

lemma decodedLayers_start_nonneg:
  "s \<in> set (decodedLayers decodeAudioData voiceBuffer layers) \<Longrightarrow> 0 \<le> src_start s"
  unfolding set_decodedLayers by (auto simp: layerSource_def)

lemma layerSource_end_clamped:
  assumes "timing layer = End" "duration voiceBuffer < duration b"
  shows "src_start (layerSource voiceBuffer layer b) = 0"
  using assms by (simp add: layerSource_def startTime_def)

lemma duration_toy_clip: "duration (toy_clip n) = of_nat n / 24000"
  by (simp add: duration_def toy_clip_def)

section \<open>Claims about the mix\<close>

text \<open>
  C1. Whenever the voice decodes to a buffer of at least one frame and one channel,
  whatever the optional layers are (absent, many, failing to decode, longer than the
  voice), \<^verbatim>\<open>mixAudio\<close> returns the WAV encoding of the rendered buffer, and that buffer has
  exactly the length in frames, the channel count and the sample rate of the voice buffer;
  the blob has \<open>channels * frames * 2 + 44\<close> bytes and carries the channel count and the
  sample rate in its header. (A voice of no frame is refused by the offline context and
  \<^verbatim>\<open>mixAudio\<close> throws: lemma \<open>mixAudio_no_frames\<close>.)
\<close>

theorem mix_output_shape:
  assumes "decodeAudioData voiceBlob = Some voiceBuffer"
    and "0 < length_frames voiceBuffer" "0 < numberOfChannels voiceBuffer"
  shows "\<exists>rendered.
           renderMix decodeAudioData render voiceBlob backgroundTrack sfxToApply
             vocalDropsToApply = Inr rendered \<and>
           length_frames rendered = length_frames voiceBuffer \<and>
           numberOfChannels rendered = numberOfChannels voiceBuffer \<and>
           sampleRate rendered = sampleRate voiceBuffer \<and>
           mixAudio decodeAudioData render voiceBlob backgroundTrack sfxToApply
             vocalDropsToApply
             = Some (Inr \<lparr>blob_bytes = wavBytes rendered, blob_type = ''audio/wav''\<rparr>) \<and>
           length (wavBytes rendered)
             = numberOfChannels voiceBuffer * length_frames voiceBuffer * 2 + 44 \<and>
           getUint16 (wavBytes rendered) 22 = int (numberOfChannels voiceBuffer) mod 65536 \<and>
           getUint32 (wavBytes rendered) 24 = int (sampleRate voiceBuffer) mod 4294967296"
proof -
  let ?graph = "[voiceSource voiceBuffer] @ decodedBackground decodeAudioData backgroundTrack
              @ decodedLayers decodeAudioData voiceBuffer (layers_of sfxToApply)
              @ decodedLayers decodeAudioData voiceBuffer (layers_of vocalDropsToApply)"
  let ?rendered = "startRendering (contextOf voiceBuffer) (render (contextOf voiceBuffer) ?graph)"
  have g: "mixGraph decodeAudioData voiceBlob backgroundTrack sfxToApply vocalDropsToApply
             = Inr (contextOf voiceBuffer, ?graph)"
    using mixGraph_decoded [of decodeAudioData voiceBlob voiceBuffer] assms by simp
  have r: "renderMix decodeAudioData render voiceBlob backgroundTrack sfxToApply
             vocalDropsToApply = Inr ?rendered"
    by (rule mixAudio_of_graph(1) [OF g])
  have m: "mixAudio decodeAudioData render voiceBlob backgroundTrack sfxToApply
             vocalDropsToApply
             = Some (Inr \<lparr>blob_bytes = wavBytes ?rendered, blob_type = ''audio/wav''\<rparr>)"
    by (rule mixAudio_of_graph(2) [OF g])
  have l: "length (wavBytes ?rendered)
             = numberOfChannels voiceBuffer * length_frames voiceBuffer * 2 + 44"
    by (simp add: length_wavBytes)
  have c: "getUint16 (wavBytes ?rendered) 22 = int (numberOfChannels voiceBuffer) mod 65536"
    using wavBytes_channels [of ?rendered] by simp
  have s: "getUint32 (wavBytes ?rendered) 24 = int (sampleRate voiceBuffer) mod 4294967296"
    using wavBytes_rate [of ?rendered] by simp
  show ?thesis
    using r m l c s by (intro exI [of _ ?rendered]) simp
qed

text \<open>
  The theorem at a voice of 3 frames with a background of 200 frames, an SFX of 5 frames
  and a vocal drop of 9 frames: 3 frames are rendered, mono, at 24 kHz, into 50 bytes.
\<close>

theorem mix_output_shape_witness:
  "toy_decode (toy_blob 3) = Some (toy_clip 3) \<and>
   0 < length_frames (toy_clip 3) \<and> 0 < numberOfChannels (toy_clip 3) \<and>
   (\<exists>rendered.
      renderMix toy_decode silent_mix (toy_blob 3)
        (Some \<lparr>blob = toy_blob 200, volume = 1 / 2\<rparr>)
        (Some [\<lparr>blob = toy_blob 5, volume = 7 / 10, timing = Start\<rparr>])
        (Some [\<lparr>blob = toy_blob 9, volume = 4 / 5, timing = End\<rparr>]) = Inr rendered \<and>
      length_frames rendered = 3 \<and> numberOfChannels rendered = 1 \<and>
      sampleRate rendered = 24000 \<and>
      mixAudio toy_decode silent_mix (toy_blob 3)
        (Some \<lparr>blob = toy_blob 200, volume = 1 / 2\<rparr>)
        (Some [\<lparr>blob = toy_blob 5, volume = 7 / 10, timing = Start\<rparr>])
        (Some [\<lparr>blob = toy_blob 9, volume = 4 / 5, timing = End\<rparr>])
        = Some (Inr \<lparr>blob_bytes = wavBytes rendered, blob_type = ''audio/wav''\<rparr>) \<and>
      length (wavBytes rendered) = 50)"
proof -
  have d: "toy_decode (toy_blob 3) = Some (toy_clip 3)" by simp
  have p: "0 < length_frames (toy_clip 3)" "0 < numberOfChannels (toy_clip 3)" by simp_all
  have c: "length_frames (toy_clip 3) = 3" "sampleRate (toy_clip 3) = 24000"
      "numberOfChannels (toy_clip 3) = 1"
    by simp_all
  show ?thesis
    using mix_output_shape [of toy_decode "toy_blob 3" "toy_clip 3" silent_mix
        "Some \<lparr>blob = toy_blob 200, volume = 1 / 2\<rparr>"
        "Some [\<lparr>blob = toy_blob 5, volume = 7 / 10, timing = Start\<rparr>]"
        "Some [\<lparr>blob = toy_blob 9, volume = 4 / 5, timing = End\<rparr>]"] d p
    unfolding c by auto
qed

text \<open>
  C2. When the voice decodes to a buffer of at least one frame and one channel, the blob
  that \<^verbatim>\<open>mixAudio\<close> returns is the encoding of the rendering, over exactly the frames of
  the voice, of a graph in which every SFX or vocal-drop layer that decodes is a source
  that plays its whole decoded buffer (nothing is cut from it before the sum, and no source
  is started with a duration: only the fixed length of the context ends it), with its
  volume as gain, started at the time \<open>max 0 t\<close> where \<open>t\<close> is 0 for \<^verbatim>\<open>start\<close>,
  \<open>voiceDuration/2 - layerDuration/2\<close> for \<^verbatim>\<open>middle\<close> and \<open>voiceDuration - layerDuration\<close>
  for \<^verbatim>\<open>end\<close>. In particular a layer placed at the end that is longer than the voice
  starts at 0, and no source of the graph starts at a negative time.
\<close>

theorem layer_start_offsets:
  assumes "decodeAudioData voiceBlob = Some voiceBuffer"
    and "0 < length_frames voiceBuffer" "0 < numberOfChannels voiceBuffer"
  shows "\<exists>graph.
           mixGraph decodeAudioData voiceBlob backgroundTrack sfxToApply vocalDropsToApply
             = Inr (contextOf voiceBuffer, graph) \<and>
           ctx_length (contextOf voiceBuffer) = length_frames voiceBuffer \<and>
           renderMix decodeAudioData render voiceBlob backgroundTrack sfxToApply
             vocalDropsToApply
             = Inr (startRendering (contextOf voiceBuffer)
                      (render (contextOf voiceBuffer) graph)) \<and>
           mixAudio decodeAudioData render voiceBlob backgroundTrack sfxToApply
             vocalDropsToApply
             = Some (Inr \<lparr>blob_bytes =
                            wavBytes (startRendering (contextOf voiceBuffer)
                                        (render (contextOf voiceBuffer) graph)),
                          blob_type = ''audio/wav''\<rparr>) \<and>
           length_frames (startRendering (contextOf voiceBuffer)
                            (render (contextOf voiceBuffer) graph))
             = length_frames voiceBuffer \<and>
           (\<forall>layer \<in> set (layers_of sfxToApply @ layers_of vocalDropsToApply).
              \<forall>b. decodeAudioData (blob layer) = Some b \<longrightarrow>
                \<lparr>src_buffer = b, src_loop = False, src_gain = volume layer,
                 src_start =
                   max 0 (case timing layer of
                            Start \<Rightarrow> 0
                          | Middle \<Rightarrow> duration voiceBuffer / 2 - duration b / 2
                          | End \<Rightarrow> duration voiceBuffer - duration b)\<rparr> \<in> set graph \<and>
                (timing layer = End \<and> duration voiceBuffer < duration b \<longrightarrow>
                   \<lparr>src_buffer = b, src_loop = False, src_gain = volume layer,
                    src_start = 0\<rparr> \<in> set graph)) \<and>
           (\<forall>s \<in> set graph. 0 \<le> src_start s)"
proof -
  let ?bg = "decodedBackground decodeAudioData backgroundTrack"
  let ?sfx = "decodedLayers decodeAudioData voiceBuffer (layers_of sfxToApply)"
  let ?drops = "decodedLayers decodeAudioData voiceBuffer (layers_of vocalDropsToApply)"
  let ?graph = "[voiceSource voiceBuffer] @ ?bg @ ?sfx @ ?drops"
  have g: "mixGraph decodeAudioData voiceBlob backgroundTrack sfxToApply vocalDropsToApply
             = Inr (contextOf voiceBuffer, ?graph)"
    using mixGraph_decoded [of decodeAudioData voiceBlob voiceBuffer] assms by simp
  have len: "ctx_length (contextOf voiceBuffer) = length_frames voiceBuffer"
    by (simp add: contextOf_def)
  note r = mixAudio_of_graph(1) [OF g, of render]
  note m = mixAudio_of_graph(2) [OF g, of render]
  have member: "layerSource voiceBuffer layer b \<in> set ?graph"
    if "layer \<in> set (layers_of sfxToApply @ layers_of vocalDropsToApply)"
      and "decodeAudioData (blob layer) = Some b" for layer b
    using that decodedLayers_member [of layer _ decodeAudioData b voiceBuffer] by auto
  have layers: "\<forall>layer \<in> set (layers_of sfxToApply @ layers_of vocalDropsToApply).
              \<forall>b. decodeAudioData (blob layer) = Some b \<longrightarrow>
                \<lparr>src_buffer = b, src_loop = False, src_gain = volume layer,
                 src_start =
                   max 0 (case timing layer of
                            Start \<Rightarrow> 0
                          | Middle \<Rightarrow> duration voiceBuffer / 2 - duration b / 2
                          | End \<Rightarrow> duration voiceBuffer - duration b)\<rparr> \<in> set ?graph \<and>
                (timing layer = End \<and> duration voiceBuffer < duration b \<longrightarrow>
                   \<lparr>src_buffer = b, src_loop = False, src_gain = volume layer,
                    src_start = 0\<rparr> \<in> set ?graph)"
  proof (intro ballI allI impI conjI)
    fix layer b
    assume l: "layer \<in> set (layers_of sfxToApply @ layers_of vocalDropsToApply)"
      and b: "decodeAudioData (blob layer) = Some b"
    have mem: "layerSource voiceBuffer layer b \<in> set ?graph" by (rule member [OF l b])
    then show "\<lparr>src_buffer = b, src_loop = False, src_gain = volume layer,
                 src_start =
                   max 0 (case timing layer of
                            Start \<Rightarrow> 0
                          | Middle \<Rightarrow> duration voiceBuffer / 2 - duration b / 2
                          | End \<Rightarrow> duration voiceBuffer - duration b)\<rparr> \<in> set ?graph"
      by (simp only: layerSource_def startTime_def)
    assume "timing layer = End \<and> duration voiceBuffer < duration b"
    then have "layerSource voiceBuffer layer b
        = \<lparr>src_buffer = b, src_loop = False, src_gain = volume layer, src_start = 0\<rparr>"
      by (simp add: layerSource_def startTime_def)
    then show "\<lparr>src_buffer = b, src_loop = False, src_gain = volume layer,
                    src_start = 0\<rparr> \<in> set ?graph"
      using mem by simp
  qed
  have nonneg: "\<forall>s \<in> set ?graph. 0 \<le> src_start s"
    using decodedLayers_start_nonneg [of _ decodeAudioData voiceBuffer]
    by (auto simp: voiceSource_def decodedBackground_def backgroundSource_def
        split: option.splits)
  have shape: "length_frames (startRendering (contextOf voiceBuffer)
                            (render (contextOf voiceBuffer) ?graph))
             = length_frames voiceBuffer"
    by simp
  show ?thesis
    using g len r m shape layers nonneg by (intro exI [of _ ?graph] conjI)
qed

text \<open>
  The theorem at a voice of 3 frames: an SFX of 1 frame in the middle starts one frame in
  (\<open>1/24000\<close> s), and a vocal drop of 9 frames at the end starts at 0; 3 frames are
  rendered.
\<close>

theorem layer_start_offsets_witness:
  "toy_decode (toy_blob 3) = Some (toy_clip 3) \<and>
   0 < length_frames (toy_clip 3) \<and> 0 < numberOfChannels (toy_clip 3) \<and>
   (\<exists>graph.
      mixGraph toy_decode (toy_blob 3) None
        (Some [\<lparr>blob = toy_blob 1, volume = 7 / 10, timing = Middle\<rparr>])
        (Some [\<lparr>blob = toy_blob 9, volume = 4 / 5, timing = End\<rparr>])
        = Inr (contextOf (toy_clip 3), graph) \<and>
      mixAudio toy_decode silent_mix (toy_blob 3) None
        (Some [\<lparr>blob = toy_blob 1, volume = 7 / 10, timing = Middle\<rparr>])
        (Some [\<lparr>blob = toy_blob 9, volume = 4 / 5, timing = End\<rparr>])
        = Some (Inr \<lparr>blob_bytes =
                       wavBytes (startRendering (contextOf (toy_clip 3))
                                   (silent_mix (contextOf (toy_clip 3)) graph)),
                     blob_type = ''audio/wav''\<rparr>) \<and>
      length_frames (startRendering (contextOf (toy_clip 3))
                       (silent_mix (contextOf (toy_clip 3)) graph)) = 3 \<and>
      \<lparr>src_buffer = toy_clip 1, src_loop = False, src_gain = 7 / 10,
       src_start = 1 / 24000\<rparr> \<in> set graph \<and>
      \<lparr>src_buffer = toy_clip 9, src_loop = False, src_gain = 4 / 5,
       src_start = 0\<rparr> \<in> set graph)"
proof -
  have d: "toy_decode (toy_blob 3) = Some (toy_clip 3)" by simp
  have p: "0 < length_frames (toy_clip 3)" "0 < numberOfChannels (toy_clip 3)" by simp_all
  let ?mid = "\<lparr>blob = toy_blob 1, volume = 7 / 10, timing = Middle\<rparr>"
  let ?end = "\<lparr>blob = toy_blob 9, volume = 4 / 5, timing = End\<rparr>"
  obtain graph where g:
      "mixGraph toy_decode (toy_blob 3) None (Some [?mid]) (Some [?end])
         = Inr (contextOf (toy_clip 3), graph)"
      "mixAudio toy_decode silent_mix (toy_blob 3) None (Some [?mid]) (Some [?end])
         = Some (Inr \<lparr>blob_bytes =
                        wavBytes (startRendering (contextOf (toy_clip 3))
                                    (silent_mix (contextOf (toy_clip 3)) graph)),
                      blob_type = ''audio/wav''\<rparr>)"
      "length_frames (startRendering (contextOf (toy_clip 3))
                       (silent_mix (contextOf (toy_clip 3)) graph))
         = length_frames (toy_clip 3)"
      "\<forall>layer \<in> set (layers_of (Some [?mid]) @ layers_of (Some [?end])).
         \<forall>b. toy_decode (blob layer) = Some b \<longrightarrow>
           \<lparr>src_buffer = b, src_loop = False, src_gain = volume layer,
            src_start =
              max 0 (case timing layer of
                       Start \<Rightarrow> 0
                     | Middle \<Rightarrow> duration (toy_clip 3) / 2 - duration b / 2
                     | End \<Rightarrow> duration (toy_clip 3) - duration b)\<rparr> \<in> set graph \<and>
           (timing layer = End \<and> duration (toy_clip 3) < duration b \<longrightarrow>
              \<lparr>src_buffer = b, src_loop = False, src_gain = volume layer,
               src_start = 0\<rparr> \<in> set graph)"
    using layer_start_offsets [of toy_decode "toy_blob 3" "toy_clip 3" None "Some [?mid]"
        "Some [?end]" silent_mix] d p
    by blast
  have m: "?mid \<in> set (layers_of (Some [?mid]) @ layers_of (Some [?end]))"
    by (simp add: layers_of_def)
  have e: "?end \<in> set (layers_of (Some [?mid]) @ layers_of (Some [?end]))"
    by (simp add: layers_of_def)
  have dm: "toy_decode (blob ?mid) = Some (toy_clip 1)" by simp
  have de: "toy_decode (blob ?end) = Some (toy_clip 9)" by simp
  have one: "\<lparr>src_buffer = toy_clip 1, src_loop = False, src_gain = 7 / 10,
       src_start = 1 / 24000\<rparr> \<in> set graph"
    using g(4) [rule_format, OF m dm] by (simp add: duration_toy_clip)
  have two: "\<lparr>src_buffer = toy_clip 9, src_loop = False, src_gain = 4 / 5,
       src_start = 0\<rparr> \<in> set graph"
    using g(4) [rule_format, OF e de] by (simp add: duration_toy_clip)
  have three: "length_frames (startRendering (contextOf (toy_clip 3))
                       (silent_mix (contextOf (toy_clip 3)) graph)) = 3"
    using g(3) by simp
  show ?thesis using g(1,2) d p one two three by blast
qed

text \<open>
  C6. Whenever the voice decodes to a buffer of at least one frame and one channel, the
  blob that \<^verbatim>\<open>mixAudio\<close> returns is the encoding of the rendering of this graph: the voice,
  the background track if there is one and it decodes, and every SFX and every vocal drop
  that decodes, in their order. A layer that fails to decode is left out and nothing else
  changes. (Only the voice makes \<^verbatim>\<open>mixAudio\<close> throw, when it fails to decode or has no
  frame: lemmas \<open>mixAudio_rejected\<close> and \<open>mixAudio_no_frames\<close>.)
\<close>

theorem mix_skips_failed_layers:
  assumes "decodeAudioData voiceBlob = Some voiceBuffer"
    and "0 < length_frames voiceBuffer" "0 < numberOfChannels voiceBuffer"
  shows "mixGraph decodeAudioData voiceBlob backgroundTrack sfxToApply vocalDropsToApply
           = Inr (contextOf voiceBuffer,
                  [voiceSource voiceBuffer]
                  @ decodedBackground decodeAudioData backgroundTrack
                  @ decodedLayers decodeAudioData voiceBuffer (layers_of sfxToApply)
                  @ decodedLayers decodeAudioData voiceBuffer (layers_of vocalDropsToApply)) \<and>
         mixAudio decodeAudioData render voiceBlob backgroundTrack sfxToApply vocalDropsToApply
           = Some (Inr \<lparr>blob_bytes =
                wavBytes (startRendering (contextOf voiceBuffer)
                  (render (contextOf voiceBuffer)
                     ([voiceSource voiceBuffer]
                      @ decodedBackground decodeAudioData backgroundTrack
                      @ decodedLayers decodeAudioData voiceBuffer (layers_of sfxToApply)
                      @ decodedLayers decodeAudioData voiceBuffer
                          (layers_of vocalDropsToApply)))),
                blob_type = ''audio/wav''\<rparr>)"
proof
  show g: "mixGraph decodeAudioData voiceBlob backgroundTrack sfxToApply vocalDropsToApply
           = Inr (contextOf voiceBuffer,
                  [voiceSource voiceBuffer]
                  @ decodedBackground decodeAudioData backgroundTrack
                  @ decodedLayers decodeAudioData voiceBuffer (layers_of sfxToApply)
                  @ decodedLayers decodeAudioData voiceBuffer (layers_of vocalDropsToApply))"
    using mixGraph_decoded [of decodeAudioData voiceBlob voiceBuffer] assms by simp
  show "mixAudio decodeAudioData render voiceBlob backgroundTrack sfxToApply vocalDropsToApply
           = Some (Inr \<lparr>blob_bytes =
                wavBytes (startRendering (contextOf voiceBuffer)
                  (render (contextOf voiceBuffer)
                     ([voiceSource voiceBuffer]
                      @ decodedBackground decodeAudioData backgroundTrack
                      @ decodedLayers decodeAudioData voiceBuffer (layers_of sfxToApply)
                      @ decodedLayers decodeAudioData voiceBuffer
                          (layers_of vocalDropsToApply)))),
                blob_type = ''audio/wav''\<rparr>)"
    by (rule mixAudio_of_graph(2) [OF g])
qed

text \<open>
  The theorem at a mix whose background, second SFX and first vocal drop fail to decode:
  the voice, the first SFX and the second drop are rendered.
\<close>

theorem mix_skips_failed_layers_witness:
  "toy_decode (toy_blob 3) = Some (toy_clip 3) \<and> toy_decode broken_blob = None \<and>
   0 < length_frames (toy_clip 3) \<and> 0 < numberOfChannels (toy_clip 3) \<and>
   mixAudio toy_decode silent_mix (toy_blob 3)
     (Some \<lparr>blob = broken_blob, volume = 1 / 2\<rparr>)
     (Some [\<lparr>blob = toy_blob 5, volume = 7 / 10, timing = Start\<rparr>,
            \<lparr>blob = broken_blob, volume = 1, timing = Middle\<rparr>])
     (Some [\<lparr>blob = broken_blob, volume = 1, timing = Start\<rparr>,
            \<lparr>blob = toy_blob 9, volume = 4 / 5, timing = End\<rparr>])
     = Some (Inr \<lparr>blob_bytes =
          wavBytes (startRendering (contextOf (toy_clip 3))
            (silent_mix (contextOf (toy_clip 3))
               [voiceSource (toy_clip 3),
                \<lparr>src_buffer = toy_clip 5, src_loop = False, src_gain = 7 / 10,
                 src_start = 0\<rparr>,
                \<lparr>src_buffer = toy_clip 9, src_loop = False, src_gain = 4 / 5,
                 src_start = 0\<rparr>])),
          blob_type = ''audio/wav''\<rparr>)"
proof -
  have d: "toy_decode (toy_blob 3) = Some (toy_clip 3)" by simp
  have p: "0 < length_frames (toy_clip 3)" "0 < numberOfChannels (toy_clip 3)" by simp_all
  show ?thesis
    using mix_skips_failed_layers [of toy_decode "toy_blob 3" "toy_clip 3"
        "Some \<lparr>blob = broken_blob, volume = 1 / 2\<rparr>"
        "Some [\<lparr>blob = toy_blob 5, volume = 7 / 10, timing = Start\<rparr>,
               \<lparr>blob = broken_blob, volume = 1, timing = Middle\<rparr>]"
        "Some [\<lparr>blob = broken_blob, volume = 1, timing = Start\<rparr>,
               \<lparr>blob = toy_blob 9, volume = 4 / 5, timing = End\<rparr>]" silent_mix] d p
    by (simp add: decodedBackground_def decodedLayers_def layers_of_def map_filter_simps
        layerSource_def startTime_def duration_toy_clip)
qed

section \<open>The preset stores: what a cache can hold\<close>

lemma decode_sfx_placeholder:
  "base64_decode ''UklGRiYAAABXQVZFZm10IBAAAAABAAEARKwAAIhYAQACABgAZGF0YQIAAAB/fw==''
     = Some sfx_placeholder"
  by (simp add: b64_value_def sfx_placeholder_def)

lemma decode_track_placeholder:
  "base64_decode ''UklGRiQAAABXQVZFZm10IBAAAAABAAEAVFYAAFRWAAABAAgAZGF0YQAAAAA=''
     = Some track_placeholder"
  by (simp add: b64_value_def track_placeholder_def)

lemma sfx_table:
  "map_of PRESET_SFX preset =
     (if preset = None_sfx then Some []
      else if preset \<in> {LaserZap, AirHorn, RecordScratch, Explosion}
      then Some ''UklGRiYAAABXQVZFZm10IBAAAAABAAEARKwAAIhYAQACABgAZGF0YQIAAAB/fw==''
      else None)"
  by (simp add: PRESET_SFX_def)

lemma track_table:
  "map_of PRESET_TRACKS preset =
     (if preset = None_track then Some []
      else if preset \<in> {SynthWhoosh, NewsJingle, RockRiff}
      then Some ''UklGRiQAAABXQVZFZm10IBAAAAABAAEAVFYAAFRWAAABAAgAZGF0YQAAAAA=''
      else None)"
  by (simp add: PRESET_TRACKS_def)

lemma sfx_keys: "fst ` set PRESET_SFX = {None_sfx, LaserZap, AirHorn, RecordScratch, Explosion}"
  by (simp add: PRESET_SFX_def)

lemma track_keys: "fst ` set PRESET_TRACKS = {None_track, SynthWhoosh, NewsJingle, RockRiff}"
  by (simp add: PRESET_TRACKS_def)

text \<open>No key of a table is a name that a plain object inherits.\<close>

lemma sfx_keys_own:
  "preset \<in> {None_sfx, LaserZap, AirHorn, RecordScratch, Explosion} \<Longrightarrow>
   preset \<notin> set Object_prototype"
  by (auto simp: Object_prototype_def None_sfx_def LaserZap_def AirHorn_def RecordScratch_def
      Explosion_def)

lemma track_keys_own:
  "preset \<in> {None_track, SynthWhoosh, NewsJingle, RockRiff} \<Longrightarrow>
   preset \<notin> set Object_prototype"
  by (auto simp: Object_prototype_def None_track_def SynthWhoosh_def NewsJingle_def
      RockRiff_def)

lemma sfx_blob_of_own: "sfx_blob_of preset = Some b \<Longrightarrow> preset \<notin> set Object_prototype"
  using sfx_keys_own [of preset] by (auto simp: sfx_blob_of_def split: if_splits)

lemma track_blob_of_own: "track_blob_of preset = Some b \<Longrightarrow> preset \<notin> set Object_prototype"
  using track_keys_own [of preset] by (auto simp: track_blob_of_def split: if_splits)

lemma getSfxBlob_cached:
  "blobCache preset = Some b \<Longrightarrow>
   getSfxBlob blobCache preset = (Inr (BlobValue b), blobCache)"
  by (simp add: getSfxBlob_def readProperty_def)

lemma getSfxBlob_inherited:
  "blobCache preset = None \<Longrightarrow> preset \<in> set Object_prototype \<Longrightarrow>
   getSfxBlob blobCache preset = (Inr (InheritedMember preset), blobCache)"
  by (simp add: getSfxBlob_def readProperty_def)

lemma getSfxBlob_uncached:
  "blobCache preset = None \<Longrightarrow> preset \<notin> set Object_prototype \<Longrightarrow>
   getSfxBlob blobCache preset =
     (case sfx_blob_of preset of
        None \<Rightarrow> (Inl (Error (''Preset SFX not found: '' @ preset)), blobCache)
      | Some b \<Rightarrow> (Inr (BlobValue b), blobCache(preset \<mapsto> b)))"
  by (simp add: getSfxBlob_def readProperty_def sfx_table sfx_blob_of_def sfx_base64ToBlob_def
      fetch_data_def decode_sfx_placeholder del: base64_decode.simps)

lemma getTrackBlob_cached:
  "blobCache preset = Some b \<Longrightarrow>
   getTrackBlob blobCache preset = (Inr (BlobValue b), blobCache)"
  by (simp add: getTrackBlob_def readProperty_def)

lemma getTrackBlob_inherited:
  "blobCache preset = None \<Longrightarrow> preset \<in> set Object_prototype \<Longrightarrow>
   getTrackBlob blobCache preset = (Inr (InheritedMember preset), blobCache)"
  by (simp add: getTrackBlob_def readProperty_def)

lemma getTrackBlob_uncached:
  "blobCache preset = None \<Longrightarrow> preset \<notin> set Object_prototype \<Longrightarrow>
   getTrackBlob blobCache preset =
     (case track_blob_of preset of
        None \<Rightarrow> (Inl (Error (''Preset track not found: '' @ preset)), blobCache)
      | Some b \<Rightarrow> (Inr (BlobValue b), blobCache(preset \<mapsto> b)))"
  by (simp add: getTrackBlob_def readProperty_def track_table track_blob_of_def
      track_base64ToBlob_def fetch_data_def decode_track_placeholder
      del: base64_decode.simps)

lemma sfxCacheAfter_entries:
  "sfxCacheAfter history preset = Some b \<Longrightarrow> sfx_blob_of preset = Some b"
proof (induction history arbitrary: preset b)
  case Nil
  then show ?case by simp
next
  case (Cons p earlier)
  show ?case
  proof (cases "sfxCacheAfter earlier p")
    case (Some c)
    then show ?thesis
      using Cons.prems Cons.IH by (simp add: getSfxBlob_cached)
  next
    case None
    show ?thesis
    proof (cases "p \<in> set Object_prototype")
      case True
      then show ?thesis
        using None Cons.prems Cons.IH by (simp add: getSfxBlob_inherited)
    next
      case False
      then show ?thesis
        using None Cons.prems Cons.IH
        by (auto simp: getSfxBlob_uncached split: option.splits if_splits)
    qed
  qed
qed

lemma trackCacheAfter_entries:
  "trackCacheAfter history preset = Some b \<Longrightarrow> track_blob_of preset = Some b"
proof (induction history arbitrary: preset b)
  case Nil
  then show ?case by simp
next
  case (Cons p earlier)
  show ?case
  proof (cases "trackCacheAfter earlier p")
    case (Some c)
    then show ?thesis
      using Cons.prems Cons.IH by (simp add: getTrackBlob_cached)
  next
    case None
    show ?thesis
    proof (cases "p \<in> set Object_prototype")
      case True
      then show ?thesis
        using None Cons.prems Cons.IH by (simp add: getTrackBlob_inherited)
    next
      case False
      then show ?thesis
        using None Cons.prems Cons.IH
        by (auto simp: getTrackBlob_uncached split: option.splits if_splits)
    qed
  qed
qed

lemma sfxCacheAfter_inherited:
  "preset \<in> set Object_prototype \<Longrightarrow> sfxCacheAfter history preset = None"
  using sfxCacheAfter_entries [of history preset] sfx_blob_of_own [of preset]
  by (cases "sfxCacheAfter history preset") auto

lemma trackCacheAfter_inherited:
  "preset \<in> set Object_prototype \<Longrightarrow> trackCacheAfter history preset = None"
  using trackCacheAfter_entries [of history preset] track_blob_of_own [of preset]
  by (cases "trackCacheAfter history preset") auto

lemma getSfxBlob_after:
  "fst (getSfxBlob (sfxCacheAfter history) preset) = sfx_resolution preset"
proof (cases "sfxCacheAfter history preset")
  case (Some b)
  then show ?thesis
    using sfxCacheAfter_entries [OF Some] sfx_blob_of_own [of preset b]
    by (simp add: getSfxBlob_cached sfx_resolution_def)
next
  case None
  then show ?thesis
    by (cases "preset \<in> set Object_prototype")
      (simp_all add: getSfxBlob_inherited getSfxBlob_uncached sfx_resolution_def
        split: option.splits)
qed

lemma getTrackBlob_after:
  "fst (getTrackBlob (trackCacheAfter history) preset) = track_resolution preset"
proof (cases "trackCacheAfter history preset")
  case (Some b)
  then show ?thesis
    using trackCacheAfter_entries [OF Some] track_blob_of_own [of preset b]
    by (simp add: getTrackBlob_cached track_resolution_def)
next
  case None
  then show ?thesis
    by (cases "preset \<in> set Object_prototype")
      (simp_all add: getTrackBlob_inherited getTrackBlob_uncached track_resolution_def
        split: option.splits)
qed

lemma getSfxBlob_failure_keeps_cache:
  assumes "sfx_blob_of preset = None" "preset \<notin> set Object_prototype"
  shows "getSfxBlob (sfxCacheAfter history) preset
           = (Inl (Error (''Preset SFX not found: '' @ preset)), sfxCacheAfter history)
         \<and> sfxCacheAfter history preset = None"
proof -
  have none: "sfxCacheAfter history preset = None"
    using sfxCacheAfter_entries [of history preset] assms(1)
    by (cases "sfxCacheAfter history preset") auto
  then show ?thesis using assms by (simp add: getSfxBlob_uncached)
qed

lemma getTrackBlob_failure_keeps_cache:
  assumes "track_blob_of preset = None" "preset \<notin> set Object_prototype"
  shows "getTrackBlob (trackCacheAfter history) preset
           = (Inl (Error (''Preset track not found: '' @ preset)), trackCacheAfter history)
         \<and> trackCacheAfter history preset = None"
proof -
  have none: "trackCacheAfter history preset = None"
    using trackCacheAfter_entries [of history preset] assms(1)
    by (cases "trackCacheAfter history preset") auto
  then show ?thesis using assms by (simp add: getTrackBlob_uncached)
qed


text \<open>
  The caller and the \<^verbatim>\<open>None\<close> presets: a resolution writes the cache at the id it resolves
  only, so the SFX presets that \<^verbatim>\<open>processAudioForTake\<close> resolves (those other than
  \<^verbatim>\<open>None\<close>) leave the cache without an entry for \<^verbatim>\<open>None\<close>, and a take whose track is \<^verbatim>\<open>None\<close>
  leaves the cache of the tracks as it was.
\<close>

lemma getSfxBlob_cache_other:
  "q \<noteq> preset \<Longrightarrow> snd (getSfxBlob blobCache preset) q = blobCache q"
  by (simp add: getSfxBlob_def split: property.splits sum.splits)

lemma resolveSfx_cache_other:
  "\<forall>sfx \<in> set applied. sfx_preset sfx \<noteq> q \<Longrightarrow> snd (resolveSfx cache applied) q = cache q"
proof (induction applied arbitrary: cache)
  case Nil
  then show ?case by simp
next
  case (Cons sfx rest)
  obtain r cache' where g: "getSfxBlob cache (sfx_preset sfx) = (r, cache')"
    by (cases "getSfxBlob cache (sfx_preset sfx)") auto
  have c: "cache' q = cache q"
    using getSfxBlob_cache_other [of q "sfx_preset sfx" cache] Cons.prems g by auto
  have ih: "snd (resolveSfx cache' rest) q = cache' q"
    using Cons.IH [of cache'] Cons.prems by simp
  have "snd (resolveSfx cache (sfx # rest)) = snd (resolveSfx cache' rest)"
    using g by (simp split: sum.splits prod.splits Resolved.splits)
  then show ?case using ih c by simp
qed

lemma prepareAndMix_none_sfx:
  assumes "prepareAndMix pf page drops processed = Some (result, page')"
  shows "sfxCache page' None_sfx = sfxCache page None_sfx"
proof -
  let ?applied = "filter (\<lambda>sfx. sfx_preset sfx \<noteq> None_sfx) (appliedSfx (currentTake page))"
  have r: "snd (resolveSfx (sfxCache page) ?applied) None_sfx = sfxCache page None_sfx"
    by (rule resolveSfx_cache_other) simp
  show ?thesis
    using assms r
    by (auto simp: prepareAndMix_def Let_def
        split: if_splits sum.splits prod.splits option.splits Resolved.splits)
qed

lemma prepareAndMix_none_track:
  assumes "prepareAndMix pf page drops processed = Some (result, page')"
    and "selectedTrack (currentTake page) = None_track"
  shows "trackCache page' = trackCache page"
  using assms
  by (auto simp: prepareAndMix_def Let_def None_track_def
      split: if_splits sum.splits prod.splits option.splits)

section \<open>Claims about the preset stores\<close>

text \<open>
  C8, as the code has it. In both stores, whatever has been resolved before, resolving an
  id that is neither a key of the preset table nor a name that a plain object inherits
  throws the store's error (\<^verbatim>\<open>Preset SFX not found: id\<close>, \<^verbatim>\<open>Preset track not found: id\<close>: the
  spec's UnknownPresetError) and returns the cache as it was, which has no entry for that
  id. For an inherited name (\<^verbatim>\<open>toString\<close>, \<^verbatim>\<open>constructor\<close>, \<^verbatim>\<open>__proto__\<close>, ...) the read of the
  cache finds the inherited member and the store returns it: nothing is thrown, and the
  cache is as it was, without an entry of its own for that name.
\<close>

theorem unknown_preset_fails:
  "(preset \<notin> fst ` set PRESET_SFX \<and> preset \<notin> set Object_prototype \<longrightarrow>
      getSfxBlob (sfxCacheAfter history) preset
        = (Inl (Error (''Preset SFX not found: '' @ preset)), sfxCacheAfter history) \<and>
      sfxCacheAfter history preset = None) \<and>
   (preset \<notin> fst ` set PRESET_TRACKS \<and> preset \<notin> set Object_prototype \<longrightarrow>
      getTrackBlob (trackCacheAfter played) preset
        = (Inl (Error (''Preset track not found: '' @ preset)), trackCacheAfter played) \<and>
      trackCacheAfter played preset = None) \<and>
   (preset \<in> set Object_prototype \<longrightarrow>
      getSfxBlob (sfxCacheAfter history) preset
        = (Inr (InheritedMember preset), sfxCacheAfter history) \<and>
      sfxCacheAfter history preset = None \<and>
      getTrackBlob (trackCacheAfter played) preset
        = (Inr (InheritedMember preset), trackCacheAfter played) \<and>
      trackCacheAfter played preset = None)"
proof (intro conjI impI; (elim conjE)?)
  assume "preset \<notin> fst ` set PRESET_SFX" and own: "preset \<notin> set Object_prototype"
  then have n: "sfx_blob_of preset = None" by (simp add: sfx_keys sfx_blob_of_def)
  show "getSfxBlob (sfxCacheAfter history) preset
        = (Inl (Error (''Preset SFX not found: '' @ preset)), sfxCacheAfter history)"
    using getSfxBlob_failure_keeps_cache [OF n own] by simp
  show "sfxCacheAfter history preset = None"
    using getSfxBlob_failure_keeps_cache [OF n own] by simp
next
  assume "preset \<notin> fst ` set PRESET_TRACKS" and own: "preset \<notin> set Object_prototype"
  then have n: "track_blob_of preset = None" by (simp add: track_keys track_blob_of_def)
  show "getTrackBlob (trackCacheAfter played) preset
        = (Inl (Error (''Preset track not found: '' @ preset)), trackCacheAfter played)"
    using getTrackBlob_failure_keeps_cache [OF n own] by simp
  show "trackCacheAfter played preset = None"
    using getTrackBlob_failure_keeps_cache [OF n own] by simp
next
  assume inh: "preset \<in> set Object_prototype"
  show s: "sfxCacheAfter history preset = None" by (rule sfxCacheAfter_inherited [OF inh])
  show t: "trackCacheAfter played preset = None" by (rule trackCacheAfter_inherited [OF inh])
  show "getSfxBlob (sfxCacheAfter history) preset
        = (Inr (InheritedMember preset), sfxCacheAfter history)"
    using getSfxBlob_inherited [of "sfxCacheAfter history" preset] s inh by simp
  show "getTrackBlob (trackCacheAfter played) preset
        = (Inr (InheritedMember preset), trackCacheAfter played)"
    using getTrackBlob_inherited [of "trackCacheAfter played" preset] t inh by simp
qed

text \<open>
  The theorem at the id \<^verbatim>\<open>Thunder\<close>, after it has been asked for once before, and at the
  inherited name \<^verbatim>\<open>valueOf\<close>.
\<close>

theorem unknown_preset_fails_witness:
  "''Thunder'' \<notin> fst ` set PRESET_SFX \<and> ''Thunder'' \<notin> set Object_prototype \<and>
   getSfxBlob (sfxCacheAfter [LaserZap, ''Thunder'']) ''Thunder''
     = (Inl (Error ''Preset SFX not found: Thunder''), sfxCacheAfter [LaserZap, ''Thunder'']) \<and>
   sfxCacheAfter [LaserZap, ''Thunder''] ''Thunder'' = None \<and>
   ''Thunder'' \<notin> fst ` set PRESET_TRACKS \<and>
   getTrackBlob (trackCacheAfter [RockRiff, ''Thunder'']) ''Thunder''
     = (Inl (Error ''Preset track not found: Thunder''), trackCacheAfter [RockRiff, ''Thunder'']) \<and>
   trackCacheAfter [RockRiff, ''Thunder''] ''Thunder'' = None \<and>
   ''valueOf'' \<in> set Object_prototype \<and>
   getSfxBlob (sfxCacheAfter [''valueOf'']) ''valueOf''
     = (Inr (InheritedMember ''valueOf''), sfxCacheAfter [''valueOf'']) \<and>
   getTrackBlob (trackCacheAfter [RockRiff]) ''valueOf''
     = (Inr (InheritedMember ''valueOf''), trackCacheAfter [RockRiff])"
proof -
  have s: "''Thunder'' \<notin> fst ` set PRESET_SFX"
    by (simp add: sfx_keys None_sfx_def LaserZap_def AirHorn_def RecordScratch_def Explosion_def)
  have t: "''Thunder'' \<notin> fst ` set PRESET_TRACKS"
    by (simp add: track_keys None_track_def SynthWhoosh_def NewsJingle_def RockRiff_def)
  have o: "''Thunder'' \<notin> set Object_prototype" by (simp add: Object_prototype_def)
  have v: "''valueOf'' \<in> set Object_prototype" by (simp add: Object_prototype_def)
  show ?thesis
    using unknown_preset_fails [of "''Thunder''" "[LaserZap, ''Thunder'']"
        "[RockRiff, ''Thunder'']"]
      unknown_preset_fails [of "''valueOf''" "[''valueOf'']" "[RockRiff]"] s t o v
    by simp
qed

text \<open>
  C8 as stated fails at the ids \<^verbatim>\<open>toString\<close> and \<^verbatim>\<open>constructor\<close>: neither is a key of a
  table, and on the empty caches the SFX store and the track store return the inherited
  member instead of throwing.
\<close>

theorem inherited_name_resolves_counterexample:
  "''toString'' \<notin> fst ` set PRESET_SFX \<and>
   fst (getSfxBlob (sfxCacheAfter []) ''toString'') = Inr (InheritedMember ''toString'') \<and>
   ''constructor'' \<notin> fst ` set PRESET_TRACKS \<and>
   fst (getTrackBlob (trackCacheAfter []) ''constructor'')
     = Inr (InheritedMember ''constructor'')"
  by (simp add: sfx_keys track_keys None_sfx_def LaserZap_def AirHorn_def RecordScratch_def
      Explosion_def None_track_def SynthWhoosh_def NewsJingle_def RockRiff_def
      getSfxBlob_def getTrackBlob_def readProperty_def Object_prototype_def)


text \<open>
  C10. Whatever has been resolved before, any two of the SFX presets LaserZap, AirHorn,
  RecordScratch and Explosion resolve to the same blob, the 46 placeholder bytes of type
  \<^verbatim>\<open>audio/wav\<close>; any two of the track presets SynthWhoosh, NewsJingle and RockRiff resolve
  to the same blob, the 44 placeholder bytes.
\<close>

theorem presets_share_placeholder:
  "(p \<in> {LaserZap, AirHorn, RecordScratch, Explosion} \<and>
    q \<in> {LaserZap, AirHorn, RecordScratch, Explosion} \<longrightarrow>
      fst (getSfxBlob (sfxCacheAfter history) p)
        = Inr (BlobValue \<lparr>blob_bytes = sfx_placeholder, blob_type = ''audio/wav''\<rparr>) \<and>
      fst (getSfxBlob (sfxCacheAfter history') q)
        = fst (getSfxBlob (sfxCacheAfter history) p)) \<and>
   (t \<in> {SynthWhoosh, NewsJingle, RockRiff} \<and> u \<in> {SynthWhoosh, NewsJingle, RockRiff} \<longrightarrow>
      fst (getTrackBlob (trackCacheAfter played) t)
        = Inr (BlobValue \<lparr>blob_bytes = track_placeholder, blob_type = ''audio/wav''\<rparr>) \<and>
      fst (getTrackBlob (trackCacheAfter played') u)
        = fst (getTrackBlob (trackCacheAfter played) t))"
proof -
  have sfx: "sfx_resolution x
      = Inr (BlobValue \<lparr>blob_bytes = sfx_placeholder, blob_type = ''audio/wav''\<rparr>)"
    if "x \<in> {LaserZap, AirHorn, RecordScratch, Explosion}" for x
  proof -
    have "x \<notin> set Object_prototype" using sfx_keys_own [of x] that by auto
    moreover have "sfx_blob_of x
        = Some \<lparr>blob_bytes = sfx_placeholder, blob_type = ''audio/wav''\<rparr>"
      using that
      by (auto simp: sfx_blob_of_def None_sfx_def LaserZap_def AirHorn_def RecordScratch_def
          Explosion_def)
    ultimately show ?thesis by (simp add: sfx_resolution_def)
  qed
  have track: "track_resolution x
      = Inr (BlobValue \<lparr>blob_bytes = track_placeholder, blob_type = ''audio/wav''\<rparr>)"
    if "x \<in> {SynthWhoosh, NewsJingle, RockRiff}" for x
  proof -
    have "x \<notin> set Object_prototype" using track_keys_own [of x] that by auto
    moreover have "track_blob_of x
        = Some \<lparr>blob_bytes = track_placeholder, blob_type = ''audio/wav''\<rparr>"
      using that
      by (auto simp: track_blob_of_def None_track_def SynthWhoosh_def NewsJingle_def
          RockRiff_def)
    ultimately show ?thesis by (simp add: track_resolution_def)
  qed
  show ?thesis
    by (intro conjI impI; (elim conjE)?)
      (simp_all only: getSfxBlob_after getTrackBlob_after sfx track)
qed

text \<open>
  The theorem at LaserZap, resolved first, and Explosion, resolved from the cache, and at
  SynthWhoosh and RockRiff.
\<close>

theorem presets_share_placeholder_witness:
  "LaserZap \<in> {LaserZap, AirHorn, RecordScratch, Explosion} \<and>
   Explosion \<in> {LaserZap, AirHorn, RecordScratch, Explosion} \<and>
   LaserZap \<noteq> Explosion \<and>
   fst (getSfxBlob (sfxCacheAfter []) LaserZap)
     = Inr (BlobValue \<lparr>blob_bytes = sfx_placeholder, blob_type = ''audio/wav''\<rparr>) \<and>
   fst (getSfxBlob (sfxCacheAfter [Explosion]) Explosion)
     = fst (getSfxBlob (sfxCacheAfter []) LaserZap) \<and>
   SynthWhoosh \<in> {SynthWhoosh, NewsJingle, RockRiff} \<and>
   RockRiff \<in> {SynthWhoosh, NewsJingle, RockRiff} \<and>
   SynthWhoosh \<noteq> RockRiff \<and>
   fst (getTrackBlob (trackCacheAfter []) SynthWhoosh)
     = Inr (BlobValue \<lparr>blob_bytes = track_placeholder, blob_type = ''audio/wav''\<rparr>) \<and>
   fst (getTrackBlob (trackCacheAfter [RockRiff]) RockRiff)
     = fst (getTrackBlob (trackCacheAfter []) SynthWhoosh)"
proof -
  have a: "LaserZap \<in> {LaserZap, AirHorn, RecordScratch, Explosion} \<and>
           Explosion \<in> {LaserZap, AirHorn, RecordScratch, Explosion}" by simp
  have b: "SynthWhoosh \<in> {SynthWhoosh, NewsJingle, RockRiff} \<and>
           RockRiff \<in> {SynthWhoosh, NewsJingle, RockRiff}" by simp
  have n: "LaserZap \<noteq> Explosion" "SynthWhoosh \<noteq> RockRiff"
    by (simp_all add: LaserZap_def Explosion_def SynthWhoosh_def RockRiff_def)
  show ?thesis
    using presets_share_placeholder [of LaserZap Explosion "[]" "[Explosion]" SynthWhoosh RockRiff
        "[]" "[RockRiff]"] a b n
    by blast
qed

section \<open>The page: one call in flight\<close>




lemma applyEffect_none:
  "applyEffect decodeAudioData render audioBlob None_effect = Some (Inr audioBlob)"
  by (simp add: applyEffect_def)














section \<open>Claims about reconfiguring a take\<close>



end
